theory Spec2Isabelle
  imports Complex_Main
begin

section \<open>Data model\<close>

text \<open>
  The feature engineering pipeline and the explanation engine of the trust scorer
  (\<^verbatim>\<open>feature_engineering.py\<close>, \<^verbatim>\<open>explain.py\<close>) are embedded here.
  A Python number is an int of any size or a float; the value of a float is read as a
  real number, so \<^verbatim>\<open>/\<close> is exact division, \<^verbatim>\<open>np.log1p x\<close> is \<open>ln (1 + x)\<close> and
  \<^verbatim>\<open>np.sqrt\<close> is \<open>sqrt\<close>. Every exception Python or numpy raises on numbers is an
  outcome of the model. Rounding, \<^verbatim>\<open>nan\<close> and \<^verbatim>\<open>inf\<close> are outside this reading: float
  addition, multiplication and division overflow to \<^verbatim>\<open>inf\<close> without raising, and numpy
  returns \<^verbatim>\<open>nan\<close> or \<^verbatim>\<open>-inf\<close> (with a warning, not an exception) for \<^verbatim>\<open>log1p\<close> at or
  below \<open>-1\<close> and for \<^verbatim>\<open>sqrt\<close> below \<open>0\<close>, where the HOL functions return some real
  number instead.
\<close>

datatype error =
    ValueError string
  | TypeError
  | ZeroDivisionError
  | OverflowError
  | KeyError string
  | IndexError
  | AttributeError
  | ExplainerError
  | OSError

datatype level = DEBUG | INFO | WARNING | ERROR

type_synonym log = "(level \<times> string) list"

text \<open>The spec's FeatureMap: feature name to the value of a float.\<close>

type_synonym feature_map = "string \<rightharpoonup> real"

subsection \<open>Python numbers\<close>

datatype pynum = PyInt int | PyFloat real

fun num :: "pynum \<Rightarrow> real" where
  "num (PyInt n) = real_of_int n"
| "num (PyFloat x) = x"

text \<open>Sequencing of calls that may raise: the first exception ends the computation.\<close>

definition and_then :: "error + 'a \<Rightarrow> ('a \<Rightarrow> error + 'b) \<Rightarrow> error + 'b" where
  "and_then r f = (case r of Inl e \<Rightarrow> Inl e | Inr v \<Rightarrow> f v)"

fun traverse :: "('a \<Rightarrow> error + 'b) \<Rightarrow> 'a list \<Rightarrow> error + 'b list" where
  "traverse f [] = Inr []"
| "traverse f (x # xs) =
     and_then (f x) (\<lambda>y. and_then (traverse f xs) (\<lambda>ys. Inr (y # ys)))"

text \<open>
  The least magnitude that rounds to infinity as a double: halfway between the largest
  double \<open>2 ^ 1024 - 2 ^ 971\<close> and \<open>2 ^ 1024\<close>. Converting an int to float raises
  \<^verbatim>\<open>OverflowError\<close> from there on.
\<close>

definition float_limit :: real where
  "float_limit = 2 ^ 1024 - 2 ^ 970"

fun to_float :: "pynum \<Rightarrow> error + real" where
  "to_float (PyInt n) =
     (if float_limit \<le> \<bar>real_of_int n\<bar> then Inl OverflowError else Inr (real_of_int n))"
| "to_float (PyFloat x) = Inr x"

text \<open>
  \<^verbatim>\<open>a / b\<close>. Between two ints the quotient is computed exactly and raises
  \<^verbatim>\<open>OverflowError\<close> when it rounds to infinity; otherwise both operands are converted
  to float first. A zero divisor raises \<^verbatim>\<open>ZeroDivisionError\<close>. The result is a float.
\<close>

fun truediv :: "pynum \<Rightarrow> pynum \<Rightarrow> error + real" where
  "truediv (PyInt a) (PyInt b) =
     (if b = 0 then Inl ZeroDivisionError
      else if float_limit \<le> \<bar>real_of_int a / real_of_int b\<bar> then Inl OverflowError
      else Inr (real_of_int a / real_of_int b))"
| "truediv a b =
     and_then (to_float a) (\<lambda>x.
     and_then (to_float b) (\<lambda>y.
       if y = 0 then Inl ZeroDivisionError else Inr (x / y)))"

text \<open>\<^verbatim>\<open>a + b\<close>: an int for two ints, a float otherwise.\<close>

fun py_add :: "pynum \<Rightarrow> pynum \<Rightarrow> error + pynum" where
  "py_add (PyInt a) (PyInt b) = Inr (PyInt (a + b))"
| "py_add a b =
     and_then (to_float a) (\<lambda>x. and_then (to_float b) (\<lambda>y. Inr (PyFloat (x + y))))"

text \<open>\<^verbatim>\<open>p ** 2\<close> on a float raises \<^verbatim>\<open>OverflowError\<close> when the square is out of range.\<close>

definition float_square :: "real \<Rightarrow> error + real" where
  "float_square x = (if float_limit \<le> x ^ 2 then Inl OverflowError else Inr (x ^ 2))"

text \<open>
  \<^verbatim>\<open>max(a, b)\<close> and \<^verbatim>\<open>min(a, b)\<close> return their first argument unless the second is
  strictly larger (smaller); ints and floats compare by value.
\<close>

definition py_max :: "pynum \<Rightarrow> pynum \<Rightarrow> pynum" where
  "py_max a b = (if num a < num b then b else a)"

definition py_min :: "pynum \<Rightarrow> pynum \<Rightarrow> pynum" where
  "py_min a b = (if num b < num a then b else a)"

text \<open>
  A numpy function applied to a Python number: an int is taken as \<^verbatim>\<open>int64\<close> or
  \<^verbatim>\<open>uint64\<close>; an int outside both becomes an object, on which \<^verbatim>\<open>np.log1p\<close> and
  \<^verbatim>\<open>np.sqrt\<close> raise \<^verbatim>\<open>TypeError\<close>.
\<close>

definition np_scalar :: "pynum \<Rightarrow> error + real" where
  "np_scalar x =
     (case x of
        PyInt n \<Rightarrow> if - (2 ^ 63) \<le> n \<and> n < 2 ^ 64 then Inr (real_of_int n) else Inl TypeError
      | PyFloat r \<Rightarrow> Inr r)"

definition log1p :: "real \<Rightarrow> real" where
  "log1p x = ln (1 + x)"

definition np_log1p :: "pynum \<Rightarrow> error + real" where
  "np_log1p x = and_then (np_scalar x) (\<lambda>r. Inr (log1p r))"

definition np_sqrt :: "pynum \<Rightarrow> error + real" where
  "np_sqrt x = and_then (np_scalar x) (\<lambda>r. Inr (sqrt r))"

subsection \<open>Records and configuration\<close>

text \<open>One entry of \<^verbatim>\<open>top_tokens\<close>: a dict read with \<^verbatim>\<open>token.get('percentage', 0)\<close>.\<close>

record token =
  percentage :: "pynum option"
  symbol :: "string option"

text \<open>
  The raw wallet record is a dict read only through \<^verbatim>\<open>.get(key, default)\<close> on twelve
  recognised keys; a field is \<open>None\<close> when its key is absent. Other keys are never read.
\<close>

record wallet_data =
  total_transactions :: "pynum option"
  contract_interactions :: "pynum option"
  unique_contracts_interacted :: "pynum option"
  average_transaction_value :: "pynum option"
  swap_frequency :: "pynum option"
  bridge_transactions :: "pynum option"
  portfolio_volatility :: "pynum option"
  account_age :: "pynum option"
  has_ens :: "bool option"
  farcaster_followers :: "pynum option"
  github_contributions :: "pynum option"
  top_tokens :: "token list option"

record FeatureConfig =
  use_log_transform :: bool
  use_robust_scaling :: bool
  handle_outliers :: bool
  outlier_threshold :: real
  min_transactions_threshold :: int

definition default_config :: FeatureConfig where
  "default_config =
     \<lparr>use_log_transform = True, use_robust_scaling = True, handle_outliers = True,
      outlier_threshold = 3.0, min_transactions_threshold = 5\<rparr>"

text \<open>\<^verbatim>\<open>d.get(key, default)\<close> on an optional field and on a feature dict.\<close>

definition get_or :: "'a option \<Rightarrow> 'a \<Rightarrow> 'a" where
  "get_or field dflt = (case field of None \<Rightarrow> dflt | Some v \<Rightarrow> v)"

definition dict_get :: "('k \<rightharpoonup> 'v) \<Rightarrow> 'k \<Rightarrow> 'v \<Rightarrow> 'v" where
  "dict_get d k dflt = (case d k of None \<Rightarrow> dflt | Some v \<Rightarrow> v)"

text \<open>
  The dict the extraction steps build holds Python numbers: the ints and floats of the
  record, floats from divisions and numpy. \<open>as_feature_map\<close> reads it as a FeatureMap.
\<close>

type_synonym py_features = "string \<rightharpoonup> pynum"

definition as_feature_map :: "py_features \<Rightarrow> feature_map" where
  "as_feature_map features = (\<lambda>name. map_option num (features name))"

section \<open>Feature engineering\<close>

subsection \<open>Onchain features\<close>

text \<open>\<^verbatim>\<open>np.log1p(x) if self.config.use_log_transform else x\<close>.\<close>

definition log_twin :: "FeatureConfig \<Rightarrow> pynum \<Rightarrow> error + pynum" where
  "log_twin cfg x =
     (if use_log_transform cfg then and_then (np_log1p x) (\<lambda>r. Inr (PyFloat r)) else Inr x)"

text \<open>
  The token block: the list comprehension divides every percentage by 100, the
  Herfindahl-Hirschman index sums their squares.
\<close>

definition percentages :: "token list \<Rightarrow> error + real list" where
  "percentages toks = traverse (\<lambda>t. truediv (get_or (percentage t) (PyInt 0)) (PyInt 100)) toks"

definition hhi :: "real list \<Rightarrow> error + real" where
  "hhi shares = and_then (traverse float_square shares) (\<lambda>squares. Inr (sum_list squares))"

definition token_features :: "token list \<Rightarrow> py_features \<Rightarrow> error + py_features" where
  "token_features toks features =
     (if toks \<noteq> [] then
        and_then (percentages toks) (\<lambda>shares.
        and_then (hhi shares) (\<lambda>concentration.
          Inr (features(''token_count'' \<mapsto> PyInt (int (length toks)),
                        ''token_concentration'' \<mapsto> PyFloat concentration,
                        ''token_diversity'' \<mapsto> PyFloat (1 - concentration)))))
      else
        Inr (features(''token_count'' \<mapsto> PyInt (int (length toks)),
                      ''token_concentration'' \<mapsto> PyFloat 1.0,
                      ''token_diversity'' \<mapsto> PyFloat 0.0)))"

text \<open>
  \<^verbatim>\<open>extract_onchain_features\<close>, its raising operations in the order of the source:
  the \<^verbatim>\<open>log1p\<close> twins, the four ratios, \<^verbatim>\<open>1 / (1 + portfolio_volatility)\<close> (which raises
  \<^verbatim>\<open>ZeroDivisionError\<close> at volatility \<open>-1\<close>), the token block, \<^verbatim>\<open>tx_per_day\<close>. The
  features assigned before an exception are lost with it.
\<close>

definition extract_onchain_features :: "FeatureConfig \<Rightarrow> wallet_data \<Rightarrow> error + py_features" where
  "extract_onchain_features cfg wd =
     (let tx_count = get_or (total_transactions wd) (PyInt 0);
          contract_ints = get_or (contract_interactions wd) (PyInt 0);
          unique_contracts = get_or (unique_contracts_interacted wd) (PyInt 0);
          avg_tx_value = get_or (average_transaction_value wd) (PyInt 0);
          swap_freq = get_or (swap_frequency wd) (PyInt 0);
          bridge_txs = get_or (bridge_transactions wd) (PyInt 0);
          volatility = get_or (portfolio_volatility wd) (PyInt 0);
          toks = get_or (top_tokens wd) [];
          age = get_or (account_age wd) (PyInt 0)
      in and_then (log_twin cfg tx_count) (\<lambda>tx_count_log.
         and_then (truediv contract_ints (py_max tx_count (PyInt 1))) (\<lambda>contract_interaction_ratio.
         and_then (truediv unique_contracts (py_max contract_ints (PyInt 1))) (\<lambda>contract_diversity.
         and_then (log_twin cfg avg_tx_value) (\<lambda>avg_tx_value_log.
         and_then (truediv swap_freq (py_max tx_count (PyInt 1))) (\<lambda>swap_ratio.
         and_then (truediv bridge_txs (py_max tx_count (PyInt 1))) (\<lambda>bridge_ratio.
         and_then (py_add (PyInt 1) volatility) (\<lambda>one_plus_volatility.
         and_then (truediv (PyInt 1) one_plus_volatility) (\<lambda>portfolio_stability.
         and_then (token_features toks
            (Map.empty(
              ''tx_count'' \<mapsto> tx_count,
              ''tx_count_log'' \<mapsto> tx_count_log,
              ''contract_interactions'' \<mapsto> contract_ints,
              ''contract_interaction_ratio'' \<mapsto> PyFloat contract_interaction_ratio,
              ''unique_contracts'' \<mapsto> unique_contracts,
              ''contract_diversity'' \<mapsto> PyFloat contract_diversity,
              ''avg_tx_value'' \<mapsto> avg_tx_value,
              ''avg_tx_value_log'' \<mapsto> avg_tx_value_log,
              ''swap_frequency'' \<mapsto> swap_freq,
              ''swap_ratio'' \<mapsto> PyFloat swap_ratio,
              ''bridge_transactions'' \<mapsto> bridge_txs,
              ''bridge_ratio'' \<mapsto> PyFloat bridge_ratio,
              ''portfolio_volatility'' \<mapsto> volatility,
              ''portfolio_stability'' \<mapsto> PyFloat portfolio_stability))) (\<lambda>features.
         and_then (log_twin cfg age) (\<lambda>account_age_log.
         and_then (truediv tx_count (py_max age (PyInt 1))) (\<lambda>tx_per_day.
           Inr (features(
             ''account_age'' \<mapsto> age,
             ''account_age_log'' \<mapsto> account_age_log,
             ''tx_per_day'' \<mapsto> PyFloat tx_per_day))))))))))))))"

text \<open>Reading one feature out of a result that may be an exception.\<close>

definition result_feature :: "error + py_features \<Rightarrow> string \<Rightarrow> pynum option" where
  "result_feature res name = (case res of Inl e \<Rightarrow> None | Inr features \<Rightarrow> features name)"

subsection \<open>Offchain features\<close>

definition extract_offchain_features :: "FeatureConfig \<Rightarrow> wallet_data \<Rightarrow> error + py_features" where
  "extract_offchain_features cfg wd =
     (let ens = get_or (has_ens wd) False;
          followers = get_or (farcaster_followers wd) (PyInt 0);
          contributions = get_or (github_contributions wd) (PyInt 0);
          social_signals =
            (if num followers > 0 then 1 else 0) + (if num contributions > 0 then 1 else 0)
              + (if ens then 1 else (0::int))
      in and_then (log_twin cfg followers) (\<lambda>followers_log.
         and_then (log_twin cfg contributions) (\<lambda>contributions_log.
         and_then (truediv (PyInt social_signals) (PyFloat 3.0)) (\<lambda>social_presence.
           Inr (Map.empty(
             ''has_ens'' \<mapsto> PyFloat (if ens then 1.0 else 0.0),
             ''farcaster_followers'' \<mapsto> followers,
             ''farcaster_followers_log'' \<mapsto> followers_log,
             ''has_farcaster'' \<mapsto> PyFloat (if num followers > 0 then 1.0 else 0.0),
             ''github_contributions'' \<mapsto> contributions,
             ''github_contributions_log'' \<mapsto> contributions_log,
             ''has_github'' \<mapsto> PyFloat (if num contributions > 0 then 1.0 else 0.0),
             ''social_signal_count'' \<mapsto> PyInt social_signals,
             ''social_presence'' \<mapsto> PyFloat social_presence))))))"

subsection \<open>Composite features\<close>

text \<open>
  \<^verbatim>\<open>create_composite_features\<close>. \<^verbatim>\<open>np.sqrt(tx_count)\<close> comes first; a product of a
  float with a number converts that number to float; \<^verbatim>\<open>account_age / 365\<close> and
  \<^verbatim>\<open>portfolio_volatility / 2.0\<close> are Python divisions.
\<close>

definition create_composite_features :: "py_features \<Rightarrow> py_features \<Rightarrow> error + py_features" where
  "create_composite_features onchain_features offchain_features =
     (let tx_count = dict_get onchain_features ''tx_count'' (PyInt 0);
          social_presence = dict_get offchain_features ''social_presence'' (PyInt 0);
          ens = dict_get offchain_features ''has_ens'' (PyInt 0);
          contract_diversity = dict_get onchain_features ''contract_diversity'' (PyInt 0);
          age = dict_get onchain_features ''account_age'' (PyInt 0);
          volatility = dict_get onchain_features ''portfolio_volatility'' (PyInt 0);
          tx_per_day = dict_get onchain_features ''tx_per_day'' (PyInt 0);
          high_frequency_risk = (if num tx_per_day > 10 then 1.0 else 0.0)
      in and_then (np_sqrt tx_count) (\<lambda>root.
         and_then (py_add (PyInt 1) social_presence) (\<lambda>one_plus_social.
         and_then (to_float one_plus_social) (\<lambda>social_factor.
         and_then (to_float ens) (\<lambda>ens_value.
         and_then (to_float (py_min contract_diversity (PyFloat 1.0))) (\<lambda>diversity_part.
         and_then (truediv age (PyInt 365)) (\<lambda>age_years.
         and_then (truediv volatility (PyFloat 2.0)) (\<lambda>half_volatility.
           (let volatility_risk = min half_volatility 1.0
            in Inr (Map.empty(
                 ''activity_social_score'' \<mapsto> PyFloat (root * social_factor),
                 ''trust_indicators'' \<mapsto>
                    PyFloat (ens_value * 0.3 + diversity_part * 0.4 + min age_years 1.0 * 0.3),
                 ''risk_indicators'' \<mapsto>
                    PyFloat (high_frequency_risk * 0.6 + volatility_risk * 0.4))))))))))))"

subsection \<open>The engineer's state\<close>

text \<open>
  A fitted sklearn scaler is kept as the function its \<^verbatim>\<open>transform\<close> applies to one
  value. \<^verbatim>\<open>feature_stats\<close> is the dict of dicts the source builds: statistic name
  (\<^verbatim>\<open>'mean'\<close>, \<^verbatim>\<open>'std'\<close>, ...) to feature name to value; it is \<^verbatim>\<open>{}\<close> at construction.
\<close>

type_synonym scaler = "real \<Rightarrow> real"

record FeatureEngineer =
  config :: FeatureConfig
  scalers :: "string \<rightharpoonup> scaler"
  feature_stats :: "string \<rightharpoonup> (string \<rightharpoonup> real)"
  is_fitted :: bool

definition FeatureEngineer_init :: "FeatureConfig option \<Rightarrow> FeatureEngineer" where
  "FeatureEngineer_init cfg =
     \<lparr>config = get_or cfg default_config, scalers = Map.empty,
      feature_stats = Map.empty, is_fitted = False\<rparr>"

subsection \<open>Outlier handling\<close>

definition continuous_features :: "string list" where
  "continuous_features =
     [''tx_count'', ''contract_interactions'', ''avg_tx_value'',
      ''swap_frequency'', ''portfolio_volatility'', ''account_age'',
      ''farcaster_followers'', ''github_contributions'']"

definition subscript :: "(string \<rightharpoonup> 'v) \<Rightarrow> string \<Rightarrow> error + 'v" where
  "subscript d k = (case d k of None \<Rightarrow> Inl (KeyError k) | Some v \<Rightarrow> Inr v)"

text \<open>
  One pass of the loop body of \<^verbatim>\<open>_handle_outliers\<close> on a FeatureMap, whose values are
  floats. The \<^verbatim>\<open>and\<close> short-circuits, so
  the statistics are subscripted only on a fitted engineer; a subscript of a missing key
  raises \<^verbatim>\<open>KeyError\<close>. The debug-level log record of a clip is below the configured
  level and is not kept.
\<close>

definition clip_feature :: "FeatureEngineer \<Rightarrow> string \<Rightarrow> feature_map \<Rightarrow> error + feature_map" where
  "clip_feature fe feature_name handled_features =
     (case handled_features feature_name of
        None \<Rightarrow> Inr handled_features
      | Some v \<Rightarrow>
          if \<not> is_fitted fe then Inr handled_features
          else
            (case subscript (feature_stats fe) ''mean'' of
               Inl e \<Rightarrow> Inl e
             | Inr means \<Rightarrow>
                 (case means feature_name of
                    None \<Rightarrow> Inr handled_features
                  | Some mean \<Rightarrow>
                      (case subscript (feature_stats fe) ''std'' of
                         Inl e \<Rightarrow> Inl e
                       | Inr stds \<Rightarrow>
                           (case subscript stds feature_name of
                              Inl e \<Rightarrow> Inl e
                            | Inr std \<Rightarrow>
                                if \<bar>v - mean\<bar> > outlier_threshold (config fe) * std
                                then Inr (handled_features(feature_name \<mapsto>
                                       mean + sgn (v - mean) * outlier_threshold (config fe) * std))
                                else Inr handled_features)))))"

fun clip_loop :: "FeatureEngineer \<Rightarrow> string list \<Rightarrow> feature_map \<Rightarrow> error + feature_map" where
  "clip_loop fe [] handled_features = Inr handled_features"
| "clip_loop fe (feature_name # rest) handled_features =
     (case clip_feature fe feature_name handled_features of
        Inl e \<Rightarrow> Inl e
      | Inr handled \<Rightarrow> clip_loop fe rest handled)"

text \<open>
  \<^verbatim>\<open>_handle_outliers\<close>: the loop over the eight continuous features, on a copy of the
  map. (Private methods drop their leading underscore here; this one also takes a suffix,
  since \<open>handle_outliers\<close> is the configuration flag.)
\<close>

definition handle_outliers_features :: "FeatureEngineer \<Rightarrow> feature_map \<Rightarrow> error + feature_map" where
  "handle_outliers_features fe features = clip_loop fe continuous_features features"

subsection \<open>The whole pipeline\<close>

text \<open>
  \<^verbatim>\<open>engineer_features\<close> hands \<^verbatim>\<open>_handle_outliers\<close> the dict of Python numbers, ints
  included. On those the loop body is the one above with one more raising operation:
  \<^verbatim>\<open>value - mean\<close> converts an int \<^verbatim>\<open>value\<close> to float (the statistics are floats). A
  clipped value is a float.
\<close>

definition clip_number :: "FeatureEngineer \<Rightarrow> string \<Rightarrow> py_features \<Rightarrow> error + py_features" where
  "clip_number fe feature_name handled_features =
     (case handled_features feature_name of
        None \<Rightarrow> Inr handled_features
      | Some v \<Rightarrow>
          if \<not> is_fitted fe then Inr handled_features
          else
            (case subscript (feature_stats fe) ''mean'' of
               Inl e \<Rightarrow> Inl e
             | Inr means \<Rightarrow>
                 (case means feature_name of
                    None \<Rightarrow> Inr handled_features
                  | Some mean \<Rightarrow>
                      (case subscript (feature_stats fe) ''std'' of
                         Inl e \<Rightarrow> Inl e
                       | Inr stds \<Rightarrow>
                           (case subscript stds feature_name of
                              Inl e \<Rightarrow> Inl e
                            | Inr std \<Rightarrow>
                                and_then (to_float v) (\<lambda>x.
                                  if \<bar>x - mean\<bar> > outlier_threshold (config fe) * std
                                  then Inr (handled_features(feature_name \<mapsto>
                                         PyFloat (mean + sgn (x - mean)
                                                    * outlier_threshold (config fe) * std)))
                                  else Inr handled_features))))))"

fun clip_number_loop ::
  "FeatureEngineer \<Rightarrow> string list \<Rightarrow> py_features \<Rightarrow> error + py_features" where
  "clip_number_loop fe [] handled_features = Inr handled_features"
| "clip_number_loop fe (feature_name # rest) handled_features =
     (case clip_number fe feature_name handled_features of
        Inl e \<Rightarrow> Inl e
      | Inr handled \<Rightarrow> clip_number_loop fe rest handled)"

definition handle_outliers_numbers :: "FeatureEngineer \<Rightarrow> py_features \<Rightarrow> error + py_features" where
  "handle_outliers_numbers fe features = clip_number_loop fe continuous_features features"

text \<open>\<^verbatim>\<open>engineer_features\<close>; the dict it returns is read as a FeatureMap.\<close>

definition engineer_features :: "FeatureEngineer \<Rightarrow> wallet_data \<Rightarrow> error + feature_map" where
  "engineer_features fe wd =
     and_then (extract_onchain_features (config fe) wd) (\<lambda>onchain_features.
     and_then (extract_offchain_features (config fe) wd) (\<lambda>offchain_features.
     and_then (create_composite_features onchain_features offchain_features)
       (\<lambda>composite_features.
         (let all_features = onchain_features ++ offchain_features ++ composite_features
          in if handle_outliers (config fe)
             then and_then (handle_outliers_numbers fe all_features)
                    (\<lambda>handled. Inr (as_feature_map handled))
             else Inr (as_feature_map all_features)))))"

subsection \<open>Fitting and applying scalers\<close>

text \<open>
  pandas and sklearn are external libraries: the column statistic
  (\<^verbatim>\<open>df.mean()\<close>, \<^verbatim>\<open>df.std()\<close>, ...) and the fit of a \<^verbatim>\<open>RobustScaler\<close>
  (flag \<open>True\<close>) or \<^verbatim>\<open>StandardScaler\<close> (flag \<open>False\<close>) are parameters. A column holds
  one entry per row of the batch, \<open>None\<close> where the row lacks the key.
\<close>

record library =
  frame_stat :: "string \<Rightarrow> real option list \<Rightarrow> real"
  scaler_fit :: "bool \<Rightarrow> real option list \<Rightarrow> scaler"

definition per_column :: "feature_map list \<Rightarrow> (real option list \<Rightarrow> 'v) \<Rightarrow> (string \<rightharpoonup> 'v)" where
  "per_column feature_data f =
     (\<lambda>column. if list_ex (\<lambda>row. row column \<noteq> None) feature_data
                then Some (f (map (\<lambda>row. row column) feature_data))
                else None)"

text \<open>
  \<^verbatim>\<open>fit_scalers\<close> returns its outcome, the engineer after the call and the log records
  it emitted (the interpolated count is left out of the message). The \<^verbatim>\<open>raise\<close> on an
  empty batch comes before any assignment; \<^verbatim>\<open>self.scalers\<close> is updated entry by entry,
  \<^verbatim>\<open>self.feature_stats\<close> is replaced.
\<close>

definition fit_scalers ::
  "library \<Rightarrow> FeatureEngineer \<Rightarrow> feature_map list \<Rightarrow> (error + unit) \<times> FeatureEngineer \<times> log" where
  "fit_scalers lib fe feature_data =
     (if feature_data = [] then
        (Inl (ValueError ''No feature data provided for fitting scalers''), fe, [])
      else
        (Inr (),
         fe\<lparr>feature_stats :=
               Map.empty(
                 ''mean'' \<mapsto> per_column feature_data (frame_stat lib ''mean''),
                 ''std'' \<mapsto> per_column feature_data (frame_stat lib ''std''),
                 ''min'' \<mapsto> per_column feature_data (frame_stat lib ''min''),
                 ''max'' \<mapsto> per_column feature_data (frame_stat lib ''max''),
                 ''median'' \<mapsto> per_column feature_data (frame_stat lib ''median'')),
            scalers :=
               scalers fe ++
               per_column feature_data (scaler_fit lib (use_robust_scaling (config fe))),
            is_fitted := True\<rparr>,
         [(INFO, ''Fitted scalers'')]))"

definition transform_features :: "FeatureEngineer \<Rightarrow> feature_map \<Rightarrow> feature_map \<times> log" where
  "transform_features fe features =
     (if \<not> is_fitted fe then
        (features, [(WARNING, ''Scalers not fitted. Returning raw features.'')])
      else
        ((\<lambda>feature_name.
            case features feature_name of
              None \<Rightarrow> None
            | Some v \<Rightarrow>
                (case scalers fe feature_name of
                   Some sc \<Rightarrow> Some (sc v)
                 | None \<Rightarrow> Some v)),
         []))"

subsection \<open>Fixed importance weights\<close>

definition get_feature_importance_weights :: "string \<rightharpoonup> real" where
  "get_feature_importance_weights =
     map_of
       [(''tx_count_log'', 0.15),
        (''contract_interaction_ratio'', 0.12),
        (''unique_contracts'', 0.10),
        (''account_age_log'', 0.10),
        (''swap_ratio'', 0.08),
        (''portfolio_stability'', 0.08),
        (''token_diversity'', 0.06),
        (''has_ens'', 0.05),
        (''social_presence'', 0.05),
        (''trust_indicators'', 0.08),
        (''activity_social_score'', 0.06),
        (''bridge_ratio'', 0.04),
        (''risk_indicators'', - 0.03)]"

subsection \<open>Saving scalers\<close>

text \<open>
  What \<^verbatim>\<open>joblib.dump\<close> is handed, and a disk of such units by path. The dump itself is
  a parameter: it returns the exception it raised, if any, and the disk it left.
\<close>

record saved_scalers =
  saved_scalers :: "string \<rightharpoonup> scaler"
  saved_feature_stats :: "string \<rightharpoonup> (string \<rightharpoonup> real)"
  saved_config :: FeatureConfig

type_synonym disk = "string \<rightharpoonup> saved_scalers"

type_synonym dump = "saved_scalers \<Rightarrow> string \<Rightarrow> disk \<Rightarrow> error option \<times> disk"

definition save_scalers ::
  "dump \<Rightarrow> FeatureEngineer \<Rightarrow> string \<Rightarrow> disk \<Rightarrow> (error + unit) \<times> disk \<times> log" where
  "save_scalers joblib_dump fe filepath d =
     (if is_fitted fe then
        (case joblib_dump
                \<lparr>saved_scalers = scalers fe, saved_feature_stats = feature_stats fe,
                 saved_config = config fe\<rparr> filepath d of
           (Some e, d') \<Rightarrow> (Inl e, d', [])
         | (None, d') \<Rightarrow> (Inr (), d', [(INFO, ''Saved scalers to '' @ filepath)]))
      else (Inr (), d, []))"

text \<open>A dump that always succeeds and stores the unit under its path.\<close>

definition write_dump :: dump where
  "write_dump obj filepath d = (None, d(filepath \<mapsto> obj))"

section \<open>Explanation engine\<close>

record FeatureContribution =
  feature_name :: string
  feature_value :: real
  contribution :: real
  importance :: real
  description :: string

text \<open>
  The model's \<^verbatim>\<open>predict\<close> and the SHAP explainer are external: the first is a function
  from the feature vector to the score, the second returns an array of one or two
  dimensions or raises. \<^verbatim>\<open>explainer\<close> is \<open>None\<close> when none could be initialised.
\<close>

datatype shap_array = Array1 "real list" | Array2 "real list list"

record TrustScoreExplainer =
  model_predict :: "real list \<Rightarrow> real"
  feature_engineer :: FeatureEngineer
  feature_names :: "string list"
  explainer :: "(real list \<Rightarrow> error + shap_array) option"

definition feature_descriptions :: "string \<rightharpoonup> string" where
  "feature_descriptions =
     map_of
       [(''tx_count_log'', ''Transaction history depth''),
        (''contract_interaction_ratio'', ''Smart contract usage frequency''),
        (''unique_contracts'', ''Diversity of contract interactions''),
        (''account_age_log'', ''Account maturity''),
        (''swap_ratio'', ''DeFi trading activity''),
        (''portfolio_stability'', ''Portfolio risk management''),
        (''token_diversity'', ''Asset diversification''),
        (''has_ens'', ''ENS domain ownership''),
        (''social_presence'', ''Social media engagement''),
        (''trust_indicators'', ''Overall trust signals''),
        (''activity_social_score'', ''Activity-social composite''),
        (''bridge_ratio'', ''Cross-chain activity''),
        (''risk_indicators'', ''Risk factors''),
        (''avg_tx_value_log'', ''Transaction size patterns''),
        (''contract_diversity'', ''Contract interaction diversity''),
        (''farcaster_followers_log'', ''Farcaster social presence''),
        (''github_contributions_log'', ''Developer activity'')]"

subsection \<open>Deterministic contributions\<close>

text \<open>The contribution appended for one feature name in the first loop.\<close>

definition raw_contribution :: "feature_map \<Rightarrow> string \<Rightarrow> FeatureContribution" where
  "raw_contribution scaled_features name =
     (let v = dict_get scaled_features name 0;
          weight = dict_get get_feature_importance_weights name 0.01;
          raw = v * weight * 100
      in \<lparr>feature_name = name, feature_value = v, contribution = raw,
          importance = \<bar>raw\<bar>, description = dict_get feature_descriptions name name\<rparr>)"

definition total_weighted_contribution :: "feature_map \<Rightarrow> string list \<Rightarrow> real" where
  "total_weighted_contribution scaled_features names =
     sum_list (map (\<lambda>name. \<bar>contribution (raw_contribution scaled_features name)\<bar>) names)"

definition get_deterministic_contributions ::
  "TrustScoreExplainer \<Rightarrow> feature_map \<Rightarrow> real \<Rightarrow> FeatureContribution list" where
  "get_deterministic_contributions ex scaled_features predicted =
     (let contributions = map (raw_contribution scaled_features) (feature_names ex);
          total = total_weighted_contribution scaled_features (feature_names ex)
      in if total > 0 then
           (let base = 50.0;
                score_deviation = predicted - base;
                normalization_factor = (if total \<noteq> 0 then score_deviation / total else 1)
            in map (\<lambda>contrib. contrib\<lparr>contribution := contribution contrib * normalization_factor\<rparr>)
                 contributions)
         else contributions)"

subsection \<open>Model-based contributions\<close>

definition first_sample :: "shap_array \<Rightarrow> error + real list" where
  "first_sample a =
     (case a of
        Array1 vs \<Rightarrow> Inr vs
      | Array2 [] \<Rightarrow> Inl IndexError
      | Array2 (vs # _) \<Rightarrow> Inr vs)"

text \<open>
  The body of the \<^verbatim>\<open>try\<close>: \<^verbatim>\<open>shap_values[i]\<close> raises \<^verbatim>\<open>IndexError\<close> as soon as a
  feature name has no value at its index.
\<close>

definition shap_attempt ::
  "TrustScoreExplainer \<Rightarrow> real list \<Rightarrow> feature_map \<Rightarrow> error + FeatureContribution list" where
  "shap_attempt ex feature_vector scaled_features =
     (case explainer ex of
        None \<Rightarrow> Inl AttributeError
      | Some shap_values \<Rightarrow>
          (case shap_values feature_vector of
             Inl e \<Rightarrow> Inl e
           | Inr a \<Rightarrow>
               (case first_sample a of
                  Inl e \<Rightarrow> Inl e
                | Inr vs \<Rightarrow>
                    if length vs < length (feature_names ex) then Inl IndexError
                    else Inr (map (\<lambda>(name, c).
                                \<lparr>feature_name = name,
                                 feature_value = dict_get scaled_features name 0,
                                 contribution = c, importance = \<bar>c\<bar>,
                                 description = dict_get feature_descriptions name name\<rparr>)
                              (zip (feature_names ex) vs)))))"

text \<open>The \<^verbatim>\<open>except\<close> branch logs a warning and calls the deterministic path with \<^verbatim>\<open>50.0\<close>.\<close>

definition get_shap_contributions ::
  "TrustScoreExplainer \<Rightarrow> real list \<Rightarrow> feature_map \<Rightarrow> FeatureContribution list \<times> log" where
  "get_shap_contributions ex feature_vector scaled_features =
     (case shap_attempt ex feature_vector scaled_features of
        Inr contributions \<Rightarrow> (contributions, [])
      | Inl e \<Rightarrow>
          (get_deterministic_contributions ex scaled_features 50.0,
           [(WARNING, ''SHAP explanation failed'')]))"

subsection \<open>Confidence\<close>

definition quality_features :: "string list" where
  "quality_features =
     [''tx_count_log'', ''account_age_log'', ''contract_interaction_ratio'',
      ''has_ens'', ''social_presence'']"

definition feature_availability :: "string list \<Rightarrow> feature_map \<Rightarrow> real" where
  "feature_availability names scaled_features =
     real (length (filter (\<lambda>name. dict_get scaled_features name 0 \<noteq> 0) names))
       / real (length names)"

definition total_importance :: "FeatureContribution list \<Rightarrow> real" where
  "total_importance contributions = sum_list (map importance contributions)"

definition quality_score :: "feature_map \<Rightarrow> nat" where
  "quality_score scaled_features =
     length (filter (\<lambda>name. dict_get scaled_features name 0 > 0) quality_features)"

text \<open>
  \<^verbatim>\<open>_calculate_confidence\<close>; dividing by \<^verbatim>\<open>len(self.feature_names)\<close> raises
  \<^verbatim>\<open>ZeroDivisionError\<close> when no feature name is declared.
\<close>

definition calculate_confidence ::
  "TrustScoreExplainer \<Rightarrow> feature_map \<Rightarrow> FeatureContribution list \<Rightarrow> error + real" where
  "calculate_confidence ex scaled_features contributions =
     (if length (feature_names ex) = 0 then Inl ZeroDivisionError
      else
        (let confidence1 = 0.0 + feature_availability (feature_names ex) scaled_features * 40;
             confidence2 =
               (if total_importance contributions > 0
                then confidence1 + min (total_importance contributions / 20) 1.0 * 30
                else confidence1);
             confidence3 =
               confidence2
                 + (real (quality_score scaled_features) / real (length quality_features)) * 30
         in Inr (min confidence3 100.0)))"

subsection \<open>Explaining one prediction\<close>

text \<open>
  \<^verbatim>\<open>explain_prediction\<close> without its \<^verbatim>\<open>explanation_text\<close>, which no property below
  reads and whose generation cannot raise; log records are dropped here.
\<close>

record TrustScoreExplanation =
  predicted_score :: real
  base_score :: real
  feature_contributions :: "FeatureContribution list"
  top_positive_factors :: "FeatureContribution list"
  top_negative_factors :: "FeatureContribution list"
  confidence :: real

definition explain_prediction :: "TrustScoreExplainer \<Rightarrow> wallet_data \<Rightarrow> error + TrustScoreExplanation" where
  "explain_prediction ex wd =
     (case engineer_features (feature_engineer ex) wd of
        Inl e \<Rightarrow> Inl e
      | Inr features \<Rightarrow>
          (let scaled_features = fst (transform_features (feature_engineer ex) features);
               feature_vector = map (\<lambda>name. dict_get scaled_features name 0) (feature_names ex);
               predicted = model_predict ex feature_vector;
               contributions =
                 (if explainer ex \<noteq> None
                  then fst (get_shap_contributions ex feature_vector scaled_features)
                  else get_deterministic_contributions ex scaled_features predicted);
               positive_factors =
                 sort_key (\<lambda>c. - contribution c) (filter (\<lambda>c. contribution c > 0) contributions);
               negative_factors =
                 sort_key contribution (filter (\<lambda>c. contribution c < 0) contributions)
           in case calculate_confidence ex scaled_features contributions of
                Inl e \<Rightarrow> Inl e
              | Inr conf \<Rightarrow>
                  Inr \<lparr>predicted_score = predicted, base_score = 50.0,
                       feature_contributions = contributions,
                       top_positive_factors = take 5 positive_factors,
                       top_negative_factors = take 5 negative_factors,
                       confidence = conf\<rparr>))"

section \<open>Records and engineers\<close>

text \<open>
  A valid raw wallet record: every recognised numeric signal that is present is a
  non-negative count or value below \<open>2 ^ 63\<close>, an int or a float, and every token
  percentage that is present lies between 0 and 100. Any key may be absent.
\<close>

definition valid_number :: "pynum \<Rightarrow> bool" where
  "valid_number v = (0 \<le> num v \<and> num v < 2 ^ 63)"

definition valid_signal :: "pynum option \<Rightarrow> bool" where
  "valid_signal field = (case field of None \<Rightarrow> True | Some v \<Rightarrow> valid_number v)"

definition valid_token :: "token \<Rightarrow> bool" where
  "valid_token t =
     (case percentage t of None \<Rightarrow> True | Some p \<Rightarrow> 0 \<le> num p \<and> num p \<le> 100)"

definition valid_record :: "wallet_data \<Rightarrow> bool" where
  "valid_record wd =
     (valid_signal (total_transactions wd) \<and>
      valid_signal (contract_interactions wd) \<and>
      valid_signal (unique_contracts_interacted wd) \<and>
      valid_signal (average_transaction_value wd) \<and>
      valid_signal (swap_frequency wd) \<and>
      valid_signal (bridge_transactions wd) \<and>
      valid_signal (portfolio_volatility wd) \<and>
      valid_signal (account_age wd) \<and>
      valid_signal (farcaster_followers wd) \<and>
      valid_signal (github_contributions wd) \<and>
      list_all valid_token (get_or (top_tokens wd) []))"

text \<open>The example record of the module's \<^verbatim>\<open>__main__\<close> block.\<close>

definition sample_wallet_data :: wallet_data where
  "sample_wallet_data =
     \<lparr>total_transactions = Some (PyInt 150),
      contract_interactions = Some (PyInt 45),
      unique_contracts_interacted = Some (PyInt 12),
      average_transaction_value = Some (PyFloat 0.5),
      swap_frequency = Some (PyInt 20),
      bridge_transactions = Some (PyInt 3),
      portfolio_volatility = Some (PyFloat 0.8),
      account_age = Some (PyInt 180),
      has_ens = Some True,
      farcaster_followers = Some (PyInt 50),
      github_contributions = Some (PyInt 25),
      top_tokens = Some
        [\<lparr>percentage = Some (PyInt 60), symbol = Some ''USDC''\<rparr>,
         \<lparr>percentage = Some (PyInt 30), symbol = Some ''ETH''\<rparr>,
         \<lparr>percentage = Some (PyInt 10), symbol = Some ''ARB''\<rparr>]\<rparr>"

text \<open>The record of the feature engineer's tests (\<^verbatim>\<open>test_ml.py\<close>, \<^verbatim>\<open>setup_method\<close>).\<close>

definition test_wallet_data :: wallet_data where
  "test_wallet_data =
     \<lparr>total_transactions = Some (PyInt 100),
      contract_interactions = Some (PyInt 30),
      unique_contracts_interacted = Some (PyInt 10),
      average_transaction_value = Some (PyFloat 1.0),
      swap_frequency = Some (PyInt 15),
      bridge_transactions = Some (PyInt 2),
      portfolio_volatility = Some (PyFloat 0.5),
      account_age = Some (PyInt 120),
      has_ens = Some True,
      farcaster_followers = Some (PyInt 25),
      github_contributions = Some (PyInt 10),
      top_tokens = Some
        [\<lparr>percentage = Some (PyInt 60), symbol = Some ''USDC''\<rparr>,
         \<lparr>percentage = Some (PyInt 40), symbol = Some ''ETH''\<rparr>]\<rparr>"

text \<open>The record \<^verbatim>\<open>{}\<close>: every recognised key absent.\<close>

definition empty_wallet_data :: wallet_data where
  "empty_wallet_data =
     \<lparr>total_transactions = None, contract_interactions = None,
      unique_contracts_interacted = None, average_transaction_value = None,
      swap_frequency = None, bridge_transactions = None, portfolio_volatility = None,
      account_age = None, has_ens = None, farcaster_followers = None,
      github_contributions = None, top_tokens = None\<rparr>"

text \<open>
  One transaction and five bridge transactions. The repository's generator
  (\<^verbatim>\<open>generate_synth.py\<close>) draws \<^verbatim>\<open>total_transactions\<close> from 1 to 50 for its least
  trusted archetype and \<^verbatim>\<open>bridge_transactions\<close> from 0 to 5 independently of it, so
  the two values occur together in the records the pipeline is fitted on.
\<close>

definition bridging_newcomer_wallet :: wallet_data where
  "bridging_newcomer_wallet =
     empty_wallet_data\<lparr>total_transactions := Some (PyInt 1),
                       bridge_transactions := Some (PyInt 5)\<rparr>"

text \<open>Records outside the valid range, and a configuration without log transform.\<close>

definition inverse_volatility_wallet :: wallet_data where
  "inverse_volatility_wallet = empty_wallet_data\<lparr>portfolio_volatility := Some (PyInt (- 1))\<rparr>"

definition huge_count_wallet :: wallet_data where
  "huge_count_wallet = empty_wallet_data\<lparr>total_transactions := Some (PyInt (2 ^ 64))\<rparr>"

definition huge_share_wallet :: wallet_data where
  "huge_share_wallet =
     empty_wallet_data\<lparr>top_tokens :=
       Some [\<lparr>percentage = Some (PyFloat (10 ^ 200)), symbol = None\<rparr>]\<rparr>"

definition plain_config :: FeatureConfig where
  "plain_config = default_config\<lparr>use_log_transform := False\<rparr>"

text \<open>The record with every absent key replaced by the default the source reads for it.\<close>

definition with_defaults :: "wallet_data \<Rightarrow> wallet_data" where
  "with_defaults wd =
     \<lparr>total_transactions = Some (get_or (total_transactions wd) (PyInt 0)),
      contract_interactions = Some (get_or (contract_interactions wd) (PyInt 0)),
      unique_contracts_interacted = Some (get_or (unique_contracts_interacted wd) (PyInt 0)),
      average_transaction_value = Some (get_or (average_transaction_value wd) (PyInt 0)),
      swap_frequency = Some (get_or (swap_frequency wd) (PyInt 0)),
      bridge_transactions = Some (get_or (bridge_transactions wd) (PyInt 0)),
      portfolio_volatility = Some (get_or (portfolio_volatility wd) (PyInt 0)),
      account_age = Some (get_or (account_age wd) (PyInt 0)),
      has_ens = Some (get_or (has_ens wd) False),
      farcaster_followers = Some (get_or (farcaster_followers wd) (PyInt 0)),
      github_contributions = Some (get_or (github_contributions wd) (PyInt 0)),
      top_tokens = Some (get_or (top_tokens wd) [])\<rparr>"

text \<open>The feature names the three extraction steps assign, in order of assignment.\<close>

definition all_feature_names :: "string list" where
  "all_feature_names =
     [''tx_count'', ''tx_count_log'', ''contract_interactions'',
      ''contract_interaction_ratio'', ''unique_contracts'', ''contract_diversity'',
      ''avg_tx_value'', ''avg_tx_value_log'', ''swap_frequency'', ''swap_ratio'',
      ''bridge_transactions'', ''bridge_ratio'', ''portfolio_volatility'',
      ''portfolio_stability'', ''token_count'', ''token_concentration'',
      ''token_diversity'', ''account_age'', ''account_age_log'', ''tx_per_day'',
      ''has_ens'', ''farcaster_followers'', ''farcaster_followers_log'', ''has_farcaster'',
      ''github_contributions'', ''github_contributions_log'', ''has_github'',
      ''social_signal_count'', ''social_presence'',
      ''activity_social_score'', ''trust_indicators'', ''risk_indicators'']"

text \<open>
  The invariant of the engineer's statistics: once fitted they hold a mean table and a
  standard-deviation table with a standard deviation for every feature that has a mean,
  as the two \<^verbatim>\<open>to_dict()\<close> calls over one data frame give. It holds at construction
  and after every call of \<^verbatim>\<open>fit_scalers\<close>.
\<close>

definition stats_consistent :: "FeatureEngineer \<Rightarrow> bool" where
  "stats_consistent fe =
     (if is_fitted fe then
        (case feature_stats fe ''mean'' of
           None \<Rightarrow> False
         | Some means \<Rightarrow>
             (case feature_stats fe ''std'' of
                None \<Rightarrow> False
              | Some stds \<Rightarrow> list_all (\<lambda>name. means name = None \<or> stds name \<noteq> None)
                               continuous_features))
      else True)"

text \<open>A fitted engineer whose statistics know one feature: mean 100, standard deviation 10.\<close>

definition fitted_engineer :: FeatureEngineer where
  "fitted_engineer =
     \<lparr>config = default_config, scalers = Map.empty,
      feature_stats = Map.empty(''mean'' \<mapsto> Map.empty(''tx_count'' \<mapsto> 100),
                                ''std'' \<mapsto> Map.empty(''tx_count'' \<mapsto> 10)),
      is_fitted = True\<rparr>"

text \<open>
  The explainer of the test suite: a model that predicts 75, an engineer that was never
  fitted, three declared feature names and no SHAP explainer.
\<close>

definition test_explainer :: TrustScoreExplainer where
  "test_explainer =
     \<lparr>model_predict = (\<lambda>feature_vector. 75.0),
      feature_engineer = FeatureEngineer_init None,
      feature_names = [''tx_count_log'', ''has_ens'', ''social_presence''],
      explainer = None\<rparr>"

text \<open>A scaled feature map over those three names.\<close>

definition ens_scaled_features :: feature_map where
  "ens_scaled_features =
     Map.empty(''tx_count_log'' \<mapsto> 0, ''has_ens'' \<mapsto> 1, ''social_presence'' \<mapsto> 1 / 3)"

text \<open>The same explainer holding a SHAP explainer that raises on every call.\<close>

definition failing_explainer :: TrustScoreExplainer where
  "failing_explainer = test_explainer\<lparr>explainer := Some (\<lambda>feature_vector. Inl ExplainerError)\<rparr>"

text \<open>A record that only says the wallet owns an ENS name.\<close>

definition ens_wallet :: wallet_data where
  "ens_wallet = empty_wallet_data\<lparr>has_ens := Some True\<rparr>"

text \<open>The test explainer declaring one positively and one negatively weighted feature.\<close>

definition risk_explainer :: TrustScoreExplainer where
  "risk_explainer = test_explainer\<lparr>feature_names := [''has_ens'', ''risk_indicators'']\<rparr>"

text \<open>Twenty transactions a day, volatility 2, an ENS name: \<^verbatim>\<open>risk_indicators\<close> is 1.\<close>

definition risky_wallet :: wallet_data where
  "risky_wallet =
     empty_wallet_data\<lparr>total_transactions := Some (PyInt 100), account_age := Some (PyInt 5),
                        portfolio_volatility := Some (PyInt 2), has_ens := Some True\<rparr>"

text \<open>The scaled feature map \<^verbatim>\<open>explain_prediction\<close> builds for a request.\<close>

definition scaled_features_of :: "TrustScoreExplainer \<Rightarrow> wallet_data \<Rightarrow> feature_map" where
  "scaled_features_of ex wd =
     (case engineer_features (feature_engineer ex) wd of
        Inl e \<Rightarrow> Map.empty
      | Inr features \<Rightarrow> fst (transform_features (feature_engineer ex) features))"

section \<open>Properties\<close>

subsection \<open>Python arithmetic on valid numbers\<close>

lemma and_then_Inr [simp]: "and_then (Inr v) f = f v"
  by (simp add: and_then_def)

lemma and_then_Inl [simp]: "and_then (Inl e) f = Inl e"
  by (simp add: and_then_def)

lemma float_limit_large: "2 ^ 64 < float_limit"
  by (simp add: float_limit_def)

lemma valid_number_small: "valid_number v \<Longrightarrow> \<bar>num v\<bar> < float_limit"
proof -
  assume "valid_number v"
  then have "\<bar>num v\<bar> < 2 ^ 63" by (simp add: valid_number_def)
  also have "(2::real) ^ 63 < 2 ^ 64" by simp
  finally show ?thesis using float_limit_large by simp
qed

lemma to_float_small: "\<bar>num v\<bar> < float_limit \<Longrightarrow> to_float v = Inr (num v)"
  by (cases v) simp_all

lemma truediv_small:
  assumes "\<bar>num a\<bar> < float_limit" and "1 \<le> num b" and "num b < float_limit"
  shows "truediv a b = Inr (num a / num b)"
proof -
  have quotient: "\<bar>num a / num b\<bar> < float_limit"
  proof -
    have "\<bar>num a / num b\<bar> = \<bar>num a\<bar> / num b" using assms(2) by simp
    also have "\<dots> \<le> \<bar>num a\<bar>"
    proof -
      have "\<bar>num a\<bar> * 1 \<le> \<bar>num a\<bar> * num b"
        using assms(2) by (intro mult_left_mono) simp_all
      then show ?thesis using assms(2) by (simp add: divide_le_eq)
    qed
    finally show ?thesis using assms(1) by simp
  qed
  have b: "\<bar>num b\<bar> < float_limit" "num b \<noteq> 0" using assms(2,3) by simp_all
  show ?thesis
  proof (cases a)
    case (PyInt m)
    note a = this
    show ?thesis
    proof (cases b)
      case (PyInt n)
      with a quotient b show ?thesis by simp
    next
      case (PyFloat y)
      with a assms(1) b show ?thesis by simp
    qed
  next
    case (PyFloat x)
    with b show ?thesis by (cases b) simp_all
  qed
qed

lemma num_py_max_one: "num (py_max b (PyInt 1)) = max (num b) 1"
  by (simp add: py_max_def max_def)

lemma truediv_floor:
  assumes "valid_number a" and "valid_number b"
  shows "truediv a (py_max b (PyInt 1)) = Inr (num a / max (num b) 1)"
proof -
  have "num (py_max b (PyInt 1)) < float_limit"
    using valid_number_small [OF assms(2)] float_limit_large
    by (simp add: num_py_max_one)
  moreover have "1 \<le> num (py_max b (PyInt 1))" by (simp add: num_py_max_one)
  ultimately show ?thesis
    using truediv_small [of a "py_max b (PyInt 1)"] valid_number_small [OF assms(1)]
    by (simp add: num_py_max_one)
qed

lemma np_scalar_valid: "valid_number x \<Longrightarrow> np_scalar x = Inr (num x)"
  by (cases x) (auto simp: np_scalar_def valid_number_def)

lemma log_twin_valid:
  "valid_number x \<Longrightarrow>
   log_twin cfg x = Inr (if use_log_transform cfg then PyFloat (log1p (num x)) else x)"
  by (simp add: log_twin_def np_log1p_def np_scalar_valid)

lemma valid_number_zero: "valid_number (PyInt 0)"
  by (simp add: valid_number_def)

lemma valid_signal_get: "valid_signal field \<Longrightarrow> valid_number (get_or field (PyInt 0))"
  by (cases field) (simp_all add: valid_signal_def get_or_def valid_number_zero)

lemma traverse_all: "(\<And>x. x \<in> set xs \<Longrightarrow> f x = Inr (g x)) \<Longrightarrow> traverse f xs = Inr (map g xs)"
  by (induction xs) simp_all

lemma percentages_valid:
  assumes "list_all valid_token toks"
  shows "percentages toks = Inr (map (\<lambda>t. num (get_or (percentage t) (PyInt 0)) / 100) toks)"
  unfolding percentages_def
proof (rule traverse_all)
  fix t assume "t \<in> set toks"
  with assms have "valid_token t" by (simp add: list_all_iff)
  then have "\<bar>num (get_or (percentage t) (PyInt 0))\<bar> \<le> 100"
    by (cases "percentage t") (simp_all add: valid_token_def get_or_def)
  also have "(100::real) < float_limit" using float_limit_large by simp
  finally show "truediv (get_or (percentage t) (PyInt 0)) (PyInt 100)
      = Inr (num (get_or (percentage t) (PyInt 0)) / 100)"
    using truediv_small [of "get_or (percentage t) (PyInt 0)" "PyInt 100"] float_limit_large
    by simp
qed

lemma hhi_shares:
  assumes "\<And>x. x \<in> set shares \<Longrightarrow> \<bar>x\<bar> \<le> 1"
  shows "hhi shares = Inr (sum_list (map (\<lambda>x. x ^ 2) shares))"
proof -
  have "traverse float_square shares = Inr (map (\<lambda>x. x ^ 2) shares)"
  proof (rule traverse_all)
    fix x assume "x \<in> set shares"
    then have "\<bar>x\<bar> \<le> 1" by (rule assms)
    then have "x ^ 2 \<le> 1" by (simp add: abs_square_le_1)
    also have "(1::real) < float_limit" using float_limit_large by simp
    finally show "float_square x = Inr (x ^ 2)" by (simp add: float_square_def)
  qed
  then show ?thesis by (simp add: hhi_def)
qed

lemma token_features_valid:
  assumes "list_all valid_token toks"
  shows "token_features toks features =
     Inr (features(
       ''token_count'' \<mapsto> PyInt (int (length toks)),
       ''token_concentration'' \<mapsto>
          PyFloat (if toks \<noteq> []
                   then sum_list (map (\<lambda>t. (num (get_or (percentage t) (PyInt 0)) / 100) ^ 2) toks)
                   else 1),
       ''token_diversity'' \<mapsto>
          PyFloat (if toks \<noteq> []
                   then 1 - sum_list (map (\<lambda>t. (num (get_or (percentage t) (PyInt 0)) / 100) ^ 2) toks)
                   else 0)))"
proof -
  let ?shares = "map (\<lambda>t. num (get_or (percentage t) (PyInt 0)) / 100) toks"
  have "\<bar>x\<bar> \<le> 1" if "x \<in> set ?shares" for x
  proof -
    from that obtain t where t: "t \<in> set toks" "x = num (get_or (percentage t) (PyInt 0)) / 100"
      by auto
    with assms have "valid_token t" by (simp add: list_all_iff)
    then have "0 \<le> num (get_or (percentage t) (PyInt 0)) \<and> num (get_or (percentage t) (PyInt 0)) \<le> 100"
      by (cases "percentage t") (simp_all add: valid_token_def get_or_def)
    with t(2) show ?thesis by simp
  qed
  then have "hhi ?shares = Inr (sum_list (map (\<lambda>x. x ^ 2) ?shares))" by (rule hhi_shares)
  then show ?thesis
    by (simp add: token_features_def percentages_valid [OF assms] comp_def)
qed

subsection \<open>Onchain extraction\<close>

lemma valid_record_fields:
  assumes "valid_record wd"
  shows "valid_number (get_or (total_transactions wd) (PyInt 0))"
    and "valid_number (get_or (contract_interactions wd) (PyInt 0))"
    and "valid_number (get_or (unique_contracts_interacted wd) (PyInt 0))"
    and "valid_number (get_or (average_transaction_value wd) (PyInt 0))"
    and "valid_number (get_or (swap_frequency wd) (PyInt 0))"
    and "valid_number (get_or (bridge_transactions wd) (PyInt 0))"
    and "valid_number (get_or (portfolio_volatility wd) (PyInt 0))"
    and "valid_number (get_or (account_age wd) (PyInt 0))"
    and "valid_number (get_or (farcaster_followers wd) (PyInt 0))"
    and "valid_number (get_or (github_contributions wd) (PyInt 0))"
    and "list_all valid_token (get_or (top_tokens wd) [])"
  using assms by (simp_all add: valid_record_def valid_signal_get)

lemma stability_valid:
  assumes "valid_number v"
  shows "and_then (py_add (PyInt 1) v) (truediv (PyInt 1)) = Inr (1 / (1 + num v))"
proof -
  from assms have nonneg: "0 \<le> num v" by (simp add: valid_number_def)
  note small = valid_number_small [OF assms]
  show ?thesis
  proof (cases v)
    case (PyInt n)
    with nonneg have "0 \<le> n" by simp
    then have "\<bar>1 / (1 + real_of_int n)\<bar> \<le> 1" by simp
    also have "(1::real) < float_limit" using float_limit_large by simp
    finally show ?thesis using PyInt \<open>0 \<le> n\<close> by simp
  next
    case (PyFloat x)
    with nonneg small float_limit_large show ?thesis by simp
  qed
qed

lemma extract_onchain_valid:
  assumes "valid_record wd"
  shows "extract_onchain_features cfg wd =
     Inr (Map.empty(
       ''tx_count'' \<mapsto> get_or (total_transactions wd) (PyInt 0),
       ''tx_count_log'' \<mapsto>
          (if use_log_transform cfg
           then PyFloat (log1p (num (get_or (total_transactions wd) (PyInt 0))))
           else get_or (total_transactions wd) (PyInt 0)),
       ''contract_interactions'' \<mapsto> get_or (contract_interactions wd) (PyInt 0),
       ''contract_interaction_ratio'' \<mapsto>
          PyFloat (num (get_or (contract_interactions wd) (PyInt 0))
                     / max (num (get_or (total_transactions wd) (PyInt 0))) 1),
       ''unique_contracts'' \<mapsto> get_or (unique_contracts_interacted wd) (PyInt 0),
       ''contract_diversity'' \<mapsto>
          PyFloat (num (get_or (unique_contracts_interacted wd) (PyInt 0))
                     / max (num (get_or (contract_interactions wd) (PyInt 0))) 1),
       ''avg_tx_value'' \<mapsto> get_or (average_transaction_value wd) (PyInt 0),
       ''avg_tx_value_log'' \<mapsto>
          (if use_log_transform cfg
           then PyFloat (log1p (num (get_or (average_transaction_value wd) (PyInt 0))))
           else get_or (average_transaction_value wd) (PyInt 0)),
       ''swap_frequency'' \<mapsto> get_or (swap_frequency wd) (PyInt 0),
       ''swap_ratio'' \<mapsto>
          PyFloat (num (get_or (swap_frequency wd) (PyInt 0))
                     / max (num (get_or (total_transactions wd) (PyInt 0))) 1),
       ''bridge_transactions'' \<mapsto> get_or (bridge_transactions wd) (PyInt 0),
       ''bridge_ratio'' \<mapsto>
          PyFloat (num (get_or (bridge_transactions wd) (PyInt 0))
                     / max (num (get_or (total_transactions wd) (PyInt 0))) 1),
       ''portfolio_volatility'' \<mapsto> get_or (portfolio_volatility wd) (PyInt 0),
       ''portfolio_stability'' \<mapsto>
          PyFloat (1 / (1 + num (get_or (portfolio_volatility wd) (PyInt 0)))),
       ''token_count'' \<mapsto> PyInt (int (length (get_or (top_tokens wd) []))),
       ''token_concentration'' \<mapsto>
          PyFloat (if get_or (top_tokens wd) [] \<noteq> []
                   then sum_list (map (\<lambda>t. (num (get_or (percentage t) (PyInt 0)) / 100) ^ 2)
                          (get_or (top_tokens wd) []))
                   else 1),
       ''token_diversity'' \<mapsto>
          PyFloat (if get_or (top_tokens wd) [] \<noteq> []
                   then 1 - sum_list (map (\<lambda>t. (num (get_or (percentage t) (PyInt 0)) / 100) ^ 2)
                              (get_or (top_tokens wd) []))
                   else 0),
       ''account_age'' \<mapsto> get_or (account_age wd) (PyInt 0),
       ''account_age_log'' \<mapsto>
          (if use_log_transform cfg
           then PyFloat (log1p (num (get_or (account_age wd) (PyInt 0))))
           else get_or (account_age wd) (PyInt 0)),
       ''tx_per_day'' \<mapsto>
          PyFloat (num (get_or (total_transactions wd) (PyInt 0))
                     / max (num (get_or (account_age wd) (PyInt 0))) 1)))"
proof -
  note v = valid_record_fields [OF assms]
  have stab: "and_then (py_add (PyInt 1) (get_or (portfolio_volatility wd) (PyInt 0)))
       (\<lambda>s. and_then (truediv (PyInt 1) s) f) =
     f (1 / (1 + num (get_or (portfolio_volatility wd) (PyInt 0))))" for f :: "real \<Rightarrow> error + py_features"
    using stability_valid [OF v(7)]
    by (cases "py_add (PyInt 1) (get_or (portfolio_volatility wd) (PyInt 0))")
       (simp_all add: and_then_def)
  show ?thesis
    unfolding extract_onchain_features_def Let_def
    by (simp only: log_twin_valid [OF v(1)] log_twin_valid [OF v(4)] log_twin_valid [OF v(8)]
        truediv_floor [OF v(2) v(1)] truediv_floor [OF v(3) v(2)] truediv_floor [OF v(5) v(1)]
        truediv_floor [OF v(6) v(1)] truediv_floor [OF v(1) v(8)] stab
        token_features_valid [OF v(11)] and_then_Inr)
qed

lemma and_then_eq_Inr: "and_then r f = Inr y \<longleftrightarrow> (\<exists>v. r = Inr v \<and> f v = Inr y)"
  by (cases r) simp_all

lemma to_float_value: "to_float v = Inr x \<Longrightarrow> x = num v"
  by (cases v) (auto split: if_splits)

lemma truediv_value: "truediv a b = Inr r \<Longrightarrow> r = num a / num b"
  by (cases a; cases b) (auto simp: and_then_eq_Inr split: if_splits dest: to_float_value)

lemma traverse_values:
  "(\<And>x y. f x = Inr y \<Longrightarrow> y = g x) \<Longrightarrow> traverse f xs = Inr ys \<Longrightarrow> ys = map g xs"
  by (induction xs arbitrary: ys) (auto simp: and_then_eq_Inr)

lemma token_features_returned:
  assumes "token_features toks m = Inr f"
  shows "\<exists>c. f = m(''token_count'' \<mapsto> PyInt (int (length toks)),
                    ''token_concentration'' \<mapsto> PyFloat c,
                    ''token_diversity'' \<mapsto> PyFloat (1 - c)) \<and>
             (toks \<noteq> [] \<longrightarrow>
                c = sum_list (map (\<lambda>t. (num (get_or (percentage t) (PyInt 0)) / 100) ^ 2) toks)) \<and>
             (toks = [] \<longrightarrow> c = 1)"
proof (cases "toks = []")
  case True
  with assms show ?thesis by (auto simp: token_features_def)
next
  case False
  with assms obtain shares c where s: "percentages toks = Inr shares" "hhi shares = Inr c"
    and f: "f = m(''token_count'' \<mapsto> PyInt (int (length toks)),
                  ''token_concentration'' \<mapsto> PyFloat c,
                  ''token_diversity'' \<mapsto> PyFloat (1 - c))"
    by (auto simp: token_features_def and_then_eq_Inr)
  from s(1) have shares: "shares = map (\<lambda>t. num (get_or (percentage t) (PyInt 0)) / 100) toks"
    unfolding percentages_def by (rule traverse_values [rotated]) (auto dest: truediv_value)
  from s(2) obtain squares where "traverse float_square shares = Inr squares" "c = sum_list squares"
    by (auto simp: hhi_def and_then_eq_Inr)
  moreover from this(1) have "squares = map (\<lambda>x. x ^ 2) shares"
    by (rule traverse_values [rotated]) (auto simp: float_square_def split: if_splits)
  ultimately have "c = sum_list (map (\<lambda>t. (num (get_or (percentage t) (PyInt 0)) / 100) ^ 2) toks)"
    by (simp add: shares comp_def)
  with f False show ?thesis by auto
qed

lemma onchain_token_lookup:
  assumes "extract_onchain_features cfg wd = Inr features"
  shows "\<exists>m f. token_features (get_or (top_tokens wd) []) m = Inr f \<and>
           features ''token_concentration'' = f ''token_concentration'' \<and>
           features ''token_diversity'' = f ''token_diversity''"
  using assms unfolding extract_onchain_features_def Let_def and_then_eq_Inr
  by (elim exE conjE) (rule exI, rule exI, erule conjI, auto)

text \<open>
  C5. On every valid record \<^verbatim>\<open>extract_onchain_features\<close> returns; and whenever it
  returns, for any record, its \<^verbatim>\<open>token_concentration\<close> and \<^verbatim>\<open>token_diversity\<close> add up
  to 1: for a non-empty \<^verbatim>\<open>top_tokens\<close> list the concentration is the sum of the squared
  shares (each percentage divided by 100) and the diversity is 1 minus it; for an empty
  or absent list the concentration is 1 and the diversity 0. Floats are read as real
  numbers, so the sum is exact.
\<close>

theorem token_concentration_plus_diversity:
  "(valid_record wd \<longrightarrow> (\<exists>features. extract_onchain_features cfg wd = Inr features)) \<and>
   (\<forall>features. extract_onchain_features cfg wd = Inr features \<longrightarrow>
      (\<exists>c d. features ''token_concentration'' = Some (PyFloat c) \<and>
           features ''token_diversity'' = Some (PyFloat d) \<and> c + d = 1 \<and>
           (get_or (top_tokens wd) [] \<noteq> [] \<longrightarrow>
              c = sum_list (map (\<lambda>t. (num (get_or (percentage t) (PyInt 0)) / 100) ^ 2)
                     (get_or (top_tokens wd) []))
              \<and> d = 1 - c) \<and>
           (get_or (top_tokens wd) [] = [] \<longrightarrow> c = 1 \<and> d = 0)))"
proof (intro conjI allI impI)
  assume "valid_record wd"
  then show "\<exists>features. extract_onchain_features cfg wd = Inr features"
    by (simp add: extract_onchain_valid)
next
  fix features
  assume "extract_onchain_features cfg wd = Inr features"
  from onchain_token_lookup [OF this] obtain m f where
    f: "token_features (get_or (top_tokens wd) []) m = Inr f"
    and look: "features ''token_concentration'' = f ''token_concentration''"
      "features ''token_diversity'' = f ''token_diversity''"
    by blast
  from token_features_returned [OF f] look
  show "\<exists>c d. features ''token_concentration'' = Some (PyFloat c) \<and>
           features ''token_diversity'' = Some (PyFloat d) \<and> c + d = 1 \<and>
           (get_or (top_tokens wd) [] \<noteq> [] \<longrightarrow>
              c = sum_list (map (\<lambda>t. (num (get_or (percentage t) (PyInt 0)) / 100) ^ 2)
                     (get_or (top_tokens wd) []))
              \<and> d = 1 - c) \<and>
           (get_or (top_tokens wd) [] = [] \<longrightarrow> c = 1 \<and> d = 0)"
    by auto
qed

lemma valid_sample: "valid_record sample_wallet_data"
  by (simp add: valid_record_def valid_signal_def valid_number_def valid_token_def
      sample_wallet_data_def get_or_def)

theorem token_concentration_plus_diversity_witness:
  "valid_record sample_wallet_data \<and>
   (\<exists>features. extract_onchain_features default_config sample_wallet_data = Inr features \<and>
      features ''token_concentration'' = Some (PyFloat 0.46) \<and>
      features ''token_diversity'' = Some (PyFloat 0.54))"
proof -
  note inst = token_concentration_plus_diversity [of sample_wallet_data default_config]
  from inst [THEN conjunct1, THEN mp, OF valid_sample] obtain features
    where r: "extract_onchain_features default_config sample_wallet_data = Inr features" ..
  from inst [THEN conjunct2, THEN spec, THEN mp, OF r]
  have "features ''token_concentration'' = Some (PyFloat 0.46) \<and>
        features ''token_diversity'' = Some (PyFloat 0.54)"
    by (auto simp: sample_wallet_data_def get_or_def power2_eq_square)
  with r valid_sample show ?thesis by blast
qed

lemma valid_bridging_newcomer: "valid_record bridging_newcomer_wallet"
  by (simp add: valid_record_def valid_signal_def valid_number_def
      bridging_newcomer_wallet_def empty_wallet_data_def get_or_def)

text \<open>
  C2 as stated fails on a valid record: with one transaction and five bridge
  transactions \<^verbatim>\<open>bridge_ratio\<close> is 5.
\<close>

theorem ratio_above_one_counterexample:
  "valid_record bridging_newcomer_wallet \<and>
   result_feature (extract_onchain_features default_config bridging_newcomer_wallet)
     ''bridge_ratio'' = Some (PyFloat 5) \<and> \<not> ((5::real) \<le> 1)"
proof -
  let ?w = bridging_newcomer_wallet
  have "result_feature (extract_onchain_features default_config ?w) ''bridge_ratio'' =
      Some (PyFloat (num (get_or (bridge_transactions ?w) (PyInt 0))
                       / max (num (get_or (total_transactions ?w) (PyInt 0))) 1))"
    unfolding extract_onchain_valid [OF valid_bridging_newcomer] result_feature_def by simp
  also have "\<dots> = Some (PyFloat 5)"
    by (simp add: bridging_newcomer_wallet_def empty_wallet_data_def get_or_def)
  finally show ?thesis using valid_bridging_newcomer by simp
qed

text \<open>
  C2, amended. For every valid record (recognised numeric signals non-negative and in
  range) \<^verbatim>\<open>extract_onchain_features\<close> returns and \<^verbatim>\<open>contract_interaction_ratio\<close>,
  \<^verbatim>\<open>contract_diversity\<close>, \<^verbatim>\<open>swap_ratio\<close> and \<^verbatim>\<open>bridge_ratio\<close> are each at least 0;
  each is at most 1 when its numerator signal does not exceed its denominator signal
  floored at 1 (the transaction count for contract interactions, swaps and bridge
  transactions; the contract interactions for unique contracts). The record of the
  feature engineer's tests is such a record.
\<close>

theorem ratios_bounded:
  assumes "valid_record wd"
  shows "\<exists>features cir cd sr br.
      extract_onchain_features cfg wd = Inr features \<and>
      features ''contract_interaction_ratio'' = Some (PyFloat cir) \<and>
      features ''contract_diversity'' = Some (PyFloat cd) \<and>
      features ''swap_ratio'' = Some (PyFloat sr) \<and>
      features ''bridge_ratio'' = Some (PyFloat br) \<and>
      0 \<le> cir \<and> 0 \<le> cd \<and> 0 \<le> sr \<and> 0 \<le> br \<and>
      (num (get_or (contract_interactions wd) (PyInt 0))
         \<le> max (num (get_or (total_transactions wd) (PyInt 0))) 1 \<longrightarrow> cir \<le> 1) \<and>
      (num (get_or (unique_contracts_interacted wd) (PyInt 0))
         \<le> max (num (get_or (contract_interactions wd) (PyInt 0))) 1 \<longrightarrow> cd \<le> 1) \<and>
      (num (get_or (swap_frequency wd) (PyInt 0))
         \<le> max (num (get_or (total_transactions wd) (PyInt 0))) 1 \<longrightarrow> sr \<le> 1) \<and>
      (num (get_or (bridge_transactions wd) (PyInt 0))
         \<le> max (num (get_or (total_transactions wd) (PyInt 0))) 1 \<longrightarrow> br \<le> 1)"
proof -
  have ratio: "0 \<le> num a / max (num b) 1 \<and> (num a \<le> max (num b) 1 \<longrightarrow> num a / max (num b) 1 \<le> 1)"
    if "valid_number a" for a b
  proof -
    have "0 < max (num b) 1" by simp
    moreover from that have "0 \<le> num a" by (simp add: valid_number_def)
    ultimately show ?thesis by (simp add: divide_le_eq_1)
  qed
  note v = valid_record_fields [OF assms]
  show ?thesis
    using ratio [OF v(2), of "get_or (total_transactions wd) (PyInt 0)"]
      ratio [OF v(3), of "get_or (contract_interactions wd) (PyInt 0)"]
      ratio [OF v(5), of "get_or (total_transactions wd) (PyInt 0)"]
      ratio [OF v(6), of "get_or (total_transactions wd) (PyInt 0)"]
    by (simp add: extract_onchain_valid [OF assms])
qed

lemma valid_test_wallet: "valid_record test_wallet_data"
  by (simp add: valid_record_def valid_signal_def valid_number_def valid_token_def
      test_wallet_data_def get_or_def)

theorem ratios_bounded_witness:
  "valid_record test_wallet_data \<and>
   (\<exists>features cir cd sr br.
      extract_onchain_features default_config test_wallet_data = Inr features \<and>
      features ''contract_interaction_ratio'' = Some (PyFloat cir) \<and>
      features ''contract_diversity'' = Some (PyFloat cd) \<and>
      features ''swap_ratio'' = Some (PyFloat sr) \<and>
      features ''bridge_ratio'' = Some (PyFloat br) \<and>
      0 \<le> cir \<and> cir \<le> 1 \<and> 0 \<le> cd \<and> cd \<le> 1 \<and>
      0 \<le> sr \<and> sr \<le> 1 \<and> 0 \<le> br \<and> br \<le> 1)"
proof -
  from ratios_bounded [OF valid_test_wallet, of default_config]
  obtain features cir cd sr br where
    "extract_onchain_features default_config test_wallet_data = Inr features"
    "features ''contract_interaction_ratio'' = Some (PyFloat cir)"
    "features ''contract_diversity'' = Some (PyFloat cd)"
    "features ''swap_ratio'' = Some (PyFloat sr)"
    "features ''bridge_ratio'' = Some (PyFloat br)"
    "0 \<le> cir" "0 \<le> cd" "0 \<le> sr" "0 \<le> br"
    "cir \<le> 1" "cd \<le> 1" "sr \<le> 1" "br \<le> 1"
    by (auto simp: test_wallet_data_def get_or_def)
  with valid_test_wallet show ?thesis by blast
qed

text \<open>Outside the valid range the model raises where the source does.\<close>

lemma onchain_raises_at_minus_one:
  "extract_onchain_features cfg inverse_volatility_wallet = Inl ZeroDivisionError"
proof -
  note v = valid_number_zero
  show ?thesis
    unfolding extract_onchain_features_def Let_def
    by (simp add: inverse_volatility_wallet_def empty_wallet_data_def get_or_def
        log_twin_valid [OF v] truediv_floor [OF v v])
qed

lemma onchain_raises_at_huge_int:
  "extract_onchain_features default_config huge_count_wallet = Inl TypeError"
  unfolding extract_onchain_features_def Let_def
  by (simp add: huge_count_wallet_def empty_wallet_data_def get_or_def default_config_def
      log_twin_def np_log1p_def np_scalar_def)

lemma onchain_raises_at_huge_share:
  "extract_onchain_features default_config huge_share_wallet = Inl OverflowError"
  unfolding extract_onchain_features_def Let_def
  by (simp add: huge_share_wallet_def empty_wallet_data_def get_or_def default_config_def
      log_twin_def np_log1p_def np_scalar_def py_max_def token_features_def percentages_def
      hhi_def float_square_def float_limit_def)

subsection \<open>Outlier handling\<close>

lemma clip_feature_unfitted: "\<not> is_fitted fe \<Longrightarrow> clip_feature fe n h = Inr h"
  by (simp add: clip_feature_def split: option.splits)

lemma clip_feature_other:
  "clip_feature fe n h = Inr h' \<Longrightarrow> m \<noteq> n \<Longrightarrow> h' m = h m"
  by (auto simp: clip_feature_def subscript_def split: option.splits if_splits sum.splits)

lemma clip_feature_dom:
  "clip_feature fe n h = Inr h' \<Longrightarrow> dom h' = dom h"
  by (auto simp: clip_feature_def subscript_def split: option.splits if_splits sum.splits)

lemma clip_feature_absent:
  "clip_feature fe n h = Inr h' \<Longrightarrow> h n = None \<Longrightarrow> h' = h"
  by (auto simp: clip_feature_def subscript_def split: option.splits if_splits sum.splits)

lemma clip_feature_changed:
  assumes "clip_feature fe n h = Inr h'" and "h n = Some v" and "h' n \<noteq> Some v"
  shows "is_fitted fe \<and>
         (\<exists>means stds mean std.
            feature_stats fe ''mean'' = Some means \<and> means n = Some mean \<and>
            feature_stats fe ''std'' = Some stds \<and> stds n = Some std \<and>
            \<bar>v - mean\<bar> > outlier_threshold (config fe) * std \<and>
            h' n = Some (mean + outlier_threshold (config fe) * std * sgn (v - mean)))"
  using assms
  by (auto simp: clip_feature_def subscript_def mult_ac split: option.splits if_splits sum.splits)

lemma clip_feature_exceeds:
  assumes "clip_feature fe n h = Inr h'" and "h n = Some v" and "is_fitted fe"
    and "feature_stats fe ''mean'' = Some means" and "means n = Some mean"
    and "feature_stats fe ''std'' = Some stds" and "stds n = Some std"
    and "\<bar>v - mean\<bar> > outlier_threshold (config fe) * std"
  shows "h' n = Some (mean + outlier_threshold (config fe) * std * sgn (v - mean))"
  using assms
  by (auto simp: clip_feature_def subscript_def mult_ac split: option.splits if_splits sum.splits)

lemma clip_feature_returns:
  assumes "stats_consistent fe" and "n \<in> set continuous_features"
  shows "\<exists>h'. clip_feature fe n h = Inr h'"
proof (cases "is_fitted fe")
  case False
  then show ?thesis by (simp add: clip_feature_unfitted)
next
  case True
  with assms(1) obtain means stds where
    ms: "feature_stats fe ''mean'' = Some means" "feature_stats fe ''std'' = Some stds"
    and all: "list_all (\<lambda>name. means name = None \<or> stds name \<noteq> None) continuous_features"
    by (auto simp: stats_consistent_def split: option.splits)
  from all assms(2) have "means n = None \<or> stds n \<noteq> None"
    by (simp add: list_all_iff)
  with True ms show ?thesis
    by (auto simp: clip_feature_def subscript_def split: option.splits)
qed

lemma clip_loop_unfitted: "\<not> is_fitted fe \<Longrightarrow> clip_loop fe ns h = Inr h"
  by (induction ns arbitrary: h) (simp_all add: clip_feature_unfitted)

lemma clip_loop_dom: "clip_loop fe ns h = Inr h' \<Longrightarrow> dom h' = dom h"
proof (induction ns arbitrary: h)
  case Nil
  then show ?case by simp
next
  case (Cons n ns)
  from Cons.prems obtain h1 where a: "clip_feature fe n h = Inr h1"
    and rest: "clip_loop fe ns h1 = Inr h'"
    by (auto split: sum.splits)
  from Cons.IH [OF rest] clip_feature_dom [OF a] show ?case by simp
qed

lemma clip_loop_other:
  "clip_loop fe ns h = Inr h' \<Longrightarrow> m \<notin> set ns \<Longrightarrow> h' m = h m"
proof (induction ns arbitrary: h)
  case Nil
  then show ?case by simp
next
  case (Cons n ns)
  then show ?case by (auto split: sum.splits dest: clip_feature_other)
qed

lemma clip_loop_returns:
  "stats_consistent fe \<Longrightarrow> set ns \<subseteq> set continuous_features \<Longrightarrow>
   \<exists>h'. clip_loop fe ns h = Inr h'"
proof (induction ns arbitrary: h)
  case Nil
  then show ?case by simp
next
  case (Cons n ns)
  then obtain h1 where "clip_feature fe n h = Inr h1"
    using clip_feature_returns [of fe n h] by auto
  with Cons show ?case by simp
qed

text \<open>With distinct names, the entry of a name is decided by its own pass alone.\<close>

lemma clip_loop_own_pass:
  "clip_loop fe ns h = Inr h' \<Longrightarrow> distinct ns \<Longrightarrow> n \<in> set ns \<Longrightarrow>
   \<exists>h1 h2. clip_feature fe n h1 = Inr h2 \<and> h1 n = h n \<and> h2 n = h' n"
proof (induction ns arbitrary: h)
  case Nil
  then show ?case by simp
next
  case (Cons a ns)
  from Cons.prems(1) obtain ha where a: "clip_feature fe a h = Inr ha"
    and rest: "clip_loop fe ns ha = Inr h'"
    by (auto split: sum.splits)
  show ?case
  proof (cases "n = a")
    case True
    with Cons.prems(2) have "n \<notin> set ns" by simp
    with rest have "h' n = ha n" by (rule clip_loop_other)
    with a True show ?thesis by auto
  next
    case False
    with Cons.prems have "n \<in> set ns" "distinct ns" by auto
    from Cons.IH [OF rest this(2) this(1)]
    obtain h1 h2 where "clip_feature fe n h1 = Inr h2" "h1 n = ha n" "h2 n = h' n" by blast
    moreover from a False have "ha n = h n" by (auto dest: clip_feature_other)
    ultimately show ?thesis by auto
  qed
qed

text \<open>The consistency of the statistics holds at construction and after every fit.\<close>

lemma stats_consistent_init: "stats_consistent (FeatureEngineer_init cfg)"
  by (simp add: stats_consistent_def FeatureEngineer_init_def)

lemma stats_consistent_fit: "stats_consistent (fst (snd (fit_scalers lib fe (row # rows))))"
  by (simp add: stats_consistent_def fit_scalers_def per_column_def list_all_iff)

lemma distinct_continuous_features: "distinct continuous_features"
  by (simp add: continuous_features_def)

text \<open>
  C9. Outlier handling changes at most the eight whitelisted continuous features and
  leaves every other entry, and the key set, as they were. On an engineer that is not
  fitted it returns the map it was given. A value \<open>v\<close> that it changes belongs to a fitted
  engineer with a mean and a standard deviation for that feature, has
  \<open>\<bar>v - mean\<bar> > outlier_threshold * std\<close>, and becomes
  \<open>mean + outlier_threshold * std * sgn (v - mean)\<close>; and every whitelisted value beyond
  that distance is replaced so. The call returns whenever the statistics hold a standard
  deviation for every mean.
\<close>

theorem handle_outliers_frame_and_clip:
  "(\<not> is_fitted fe \<longrightarrow> handle_outliers_features fe features = Inr features) \<and>
   (stats_consistent fe \<longrightarrow> (\<exists>handled. handle_outliers_features fe features = Inr handled)) \<and>
   (\<forall>handled. handle_outliers_features fe features = Inr handled \<longrightarrow>
      dom handled = dom features \<and>
      (\<forall>name. name \<notin> {''tx_count'', ''contract_interactions'', ''avg_tx_value'',
                        ''swap_frequency'', ''portfolio_volatility'', ''account_age'',
                        ''farcaster_followers'', ''github_contributions''}
               \<longrightarrow> handled name = features name) \<and>
      (\<forall>name v. features name = Some v \<and> handled name \<noteq> Some v \<longrightarrow>
         is_fitted fe \<and>
         (\<exists>means stds mean std.
            feature_stats fe ''mean'' = Some means \<and> means name = Some mean \<and>
            feature_stats fe ''std'' = Some stds \<and> stds name = Some std \<and>
            \<bar>v - mean\<bar> > outlier_threshold (config fe) * std \<and>
            handled name = Some (mean + outlier_threshold (config fe) * std * sgn (v - mean)))) \<and>
      (\<forall>name v means stds mean std.
         name \<in> {''tx_count'', ''contract_interactions'', ''avg_tx_value'',
                  ''swap_frequency'', ''portfolio_volatility'', ''account_age'',
                  ''farcaster_followers'', ''github_contributions''} \<and>
         is_fitted fe \<and> features name = Some v \<and>
         feature_stats fe ''mean'' = Some means \<and> means name = Some mean \<and>
         feature_stats fe ''std'' = Some stds \<and> stds name = Some std \<and>
         \<bar>v - mean\<bar> > outlier_threshold (config fe) * std
         \<longrightarrow> handled name = Some (mean + outlier_threshold (config fe) * std * sgn (v - mean))))"
proof -
  have names: "set continuous_features =
      {''tx_count'', ''contract_interactions'', ''avg_tx_value'',
       ''swap_frequency'', ''portfolio_volatility'', ''account_age'',
       ''farcaster_followers'', ''github_contributions''}"
    by (simp add: continuous_features_def)
  have unfitted: "\<not> is_fitted fe \<longrightarrow> handle_outliers_features fe features = Inr features"
    by (simp add: handle_outliers_features_def clip_loop_unfitted)
  have returns: "stats_consistent fe \<longrightarrow> (\<exists>handled. handle_outliers_features fe features = Inr handled)"
    by (simp add: handle_outliers_features_def clip_loop_returns)
  have rest: "dom handled = dom features \<and>
      (\<forall>name. name \<notin> set continuous_features \<longrightarrow> handled name = features name) \<and>
      (\<forall>name v. features name = Some v \<and> handled name \<noteq> Some v \<longrightarrow>
         is_fitted fe \<and>
         (\<exists>means stds mean std.
            feature_stats fe ''mean'' = Some means \<and> means name = Some mean \<and>
            feature_stats fe ''std'' = Some stds \<and> stds name = Some std \<and>
            \<bar>v - mean\<bar> > outlier_threshold (config fe) * std \<and>
            handled name = Some (mean + outlier_threshold (config fe) * std * sgn (v - mean)))) \<and>
      (\<forall>name v means stds mean std.
         name \<in> set continuous_features \<and>
         is_fitted fe \<and> features name = Some v \<and>
         feature_stats fe ''mean'' = Some means \<and> means name = Some mean \<and>
         feature_stats fe ''std'' = Some stds \<and> stds name = Some std \<and>
         \<bar>v - mean\<bar> > outlier_threshold (config fe) * std
         \<longrightarrow> handled name = Some (mean + outlier_threshold (config fe) * std * sgn (v - mean)))"
    if run: "handle_outliers_features fe features = Inr handled" for handled
  proof -
    from run have loop: "clip_loop fe continuous_features features = Inr handled"
      by (simp add: handle_outliers_features_def)
    have d: "dom handled = dom features"
      using loop by (rule clip_loop_dom)
    have frame: "handled name = features name" if "name \<notin> set continuous_features" for name
      using loop that by (rule clip_loop_other)
    have changed: "is_fitted fe \<and>
         (\<exists>means stds mean std.
            feature_stats fe ''mean'' = Some means \<and> means name = Some mean \<and>
            feature_stats fe ''std'' = Some stds \<and> stds name = Some std \<and>
            \<bar>v - mean\<bar> > outlier_threshold (config fe) * std \<and>
            handled name = Some (mean + outlier_threshold (config fe) * std * sgn (v - mean)))"
      if "features name = Some v" "handled name \<noteq> Some v" for name v
    proof -
      from that frame have "name \<in> set continuous_features" by metis
      from clip_loop_own_pass [OF loop distinct_continuous_features this]
      obtain h1 h2 where "clip_feature fe name h1 = Inr h2" "h1 name = features name"
        "h2 name = handled name" by blast
      with that clip_feature_changed [of fe name h1 h2 v] show ?thesis by simp
    qed
    have exceeds: "handled name = Some (mean + outlier_threshold (config fe) * std * sgn (v - mean))"
      if "name \<in> set continuous_features" "is_fitted fe" "features name = Some v"
         "feature_stats fe ''mean'' = Some means" "means name = Some mean"
         "feature_stats fe ''std'' = Some stds" "stds name = Some std"
         "\<bar>v - mean\<bar> > outlier_threshold (config fe) * std"
      for name v means stds mean std
    proof -
      from clip_loop_own_pass [OF loop distinct_continuous_features that(1)]
      obtain h1 h2 where "clip_feature fe name h1 = Inr h2" "h1 name = features name"
        "h2 name = handled name" by blast
      with that clip_feature_exceeds [of fe name h1 h2 v means mean stds std] show ?thesis by simp
    qed
    from d frame changed exceeds show ?thesis by blast
  qed
  from unfitted returns rest show ?thesis unfolding names by blast
qed

theorem handle_outliers_frame_and_clip_witness:
  "stats_consistent fitted_engineer \<and>
   (\<exists>handled.
      handle_outliers_features fitted_engineer
        (Map.empty(''tx_count'' \<mapsto> 200, ''has_ens'' \<mapsto> 1)) = Inr handled \<and>
      handled ''tx_count'' = Some 130 \<and> handled ''has_ens'' = Some 1)"
proof -
  let ?features = "Map.empty(''tx_count'' \<mapsto> 200::real, ''has_ens'' \<mapsto> 1)"
  note inst = handle_outliers_frame_and_clip [of fitted_engineer ?features]
  have h: "stats_consistent fitted_engineer"
    by (simp add: stats_consistent_def fitted_engineer_def continuous_features_def)
  from inst [THEN conjunct2, THEN conjunct1, THEN mp, OF h] obtain handled
    where run: "handle_outliers_features fitted_engineer ?features = Inr handled" ..
  note post = inst [THEN conjunct2, THEN conjunct2, THEN spec, THEN mp, OF run]
  have "handled ''has_ens'' = ?features ''has_ens''"
    by (rule post [THEN conjunct2, THEN conjunct1, THEN spec, THEN mp]) simp
  then have frame: "handled ''has_ens'' = Some 1" by simp
  have "handled ''tx_count'' =
      Some (100 + outlier_threshold (config fitted_engineer) * 10 * sgn (200 - 100))"
    by (rule post [THEN conjunct2, THEN conjunct2, THEN conjunct2, rule_format,
          of "''tx_count''" 200 "Map.empty(''tx_count'' \<mapsto> 100)" 100
             "Map.empty(''tx_count'' \<mapsto> 10)" 10])
       (simp add: fitted_engineer_def default_config_def)
  then have clip: "handled ''tx_count'' = Some 130"
    by (simp add: fitted_engineer_def default_config_def)
  from h run frame clip show ?thesis by blast
qed

subsection \<open>Offchain and composite features\<close>

lemma extract_offchain_valid:
  assumes "valid_record wd"
  shows "extract_offchain_features cfg wd =
     Inr (Map.empty(
       ''has_ens'' \<mapsto> PyFloat (if get_or (has_ens wd) False then 1 else 0),
       ''farcaster_followers'' \<mapsto> get_or (farcaster_followers wd) (PyInt 0),
       ''farcaster_followers_log'' \<mapsto>
          (if use_log_transform cfg
           then PyFloat (log1p (num (get_or (farcaster_followers wd) (PyInt 0))))
           else get_or (farcaster_followers wd) (PyInt 0)),
       ''has_farcaster'' \<mapsto>
          PyFloat (if num (get_or (farcaster_followers wd) (PyInt 0)) > 0 then 1 else 0),
       ''github_contributions'' \<mapsto> get_or (github_contributions wd) (PyInt 0),
       ''github_contributions_log'' \<mapsto>
          (if use_log_transform cfg
           then PyFloat (log1p (num (get_or (github_contributions wd) (PyInt 0))))
           else get_or (github_contributions wd) (PyInt 0)),
       ''has_github'' \<mapsto>
          PyFloat (if num (get_or (github_contributions wd) (PyInt 0)) > 0 then 1 else 0),
       ''social_signal_count'' \<mapsto>
          PyInt ((if num (get_or (farcaster_followers wd) (PyInt 0)) > 0 then 1 else 0)
                 + (if num (get_or (github_contributions wd) (PyInt 0)) > 0 then 1 else 0)
                 + (if get_or (has_ens wd) False then 1 else 0)),
       ''social_presence'' \<mapsto>
          PyFloat (real_of_int
                    ((if num (get_or (farcaster_followers wd) (PyInt 0)) > 0 then 1 else 0)
                     + (if num (get_or (github_contributions wd) (PyInt 0)) > 0 then 1 else 0)
                     + (if get_or (has_ens wd) False then 1 else 0)) / 3)))"
proof -
  note v = valid_record_fields [OF assms]
  have small: "\<not> float_limit \<le> x" if "x \<le> 3" for x
    using that float_limit_large by simp
  show ?thesis
    unfolding extract_offchain_features_def Let_def
    by (simp add: log_twin_valid [OF v(9)] log_twin_valid [OF v(10)] small)
qed

lemma create_composite_valid:
  assumes "valid_record wd"
    and "extract_onchain_features cfg wd = Inr onchain"
    and "extract_offchain_features cfg wd = Inr offchain"
  shows "\<exists>composite. create_composite_features onchain offchain = Inr composite \<and>
           dom composite = {''activity_social_score'', ''trust_indicators'', ''risk_indicators''}"
proof -
  note v = valid_record_fields [OF assms(1)]
  note on_eq = assms(2) [unfolded extract_onchain_valid [OF assms(1)] sum.inject, symmetric]
  note off_eq = assms(3) [unfolded extract_offchain_valid [OF assms(1)] sum.inject, symmetric]
  have on: "dict_get onchain ''tx_count'' (PyInt 0) = get_or (total_transactions wd) (PyInt 0)"
    "dict_get onchain ''account_age'' (PyInt 0) = get_or (account_age wd) (PyInt 0)"
    "dict_get onchain ''portfolio_volatility'' (PyInt 0) = get_or (portfolio_volatility wd) (PyInt 0)"
    unfolding on_eq by (simp_all add: dict_get_def)
  have cd: "dict_get onchain ''contract_diversity'' (PyInt 0) =
      PyFloat (num (get_or (unique_contracts_interacted wd) (PyInt 0))
                 / max (num (get_or (contract_interactions wd) (PyInt 0))) 1)"
    unfolding on_eq by (simp add: dict_get_def)
  have sp: "dict_get offchain ''social_presence'' (PyInt 0) =
      PyFloat (real_of_int
                ((if num (get_or (farcaster_followers wd) (PyInt 0)) > 0 then 1 else 0)
                 + (if num (get_or (github_contributions wd) (PyInt 0)) > 0 then 1 else 0)
                 + (if get_or (has_ens wd) False then 1 else 0)) / 3)"
    unfolding off_eq by (simp only: dict_get_def fun_upd_same option.case)
  have ens: "dict_get offchain ''has_ens'' (PyInt 0) =
      PyFloat (if get_or (has_ens wd) False then 1 else 0)"
    unfolding off_eq by (simp add: dict_get_def)
  note floats = cd sp ens
  have root: "np_sqrt (get_or (total_transactions wd) (PyInt 0))
      = Inr (sqrt (num (get_or (total_transactions wd) (PyInt 0))))"
    by (simp add: np_sqrt_def np_scalar_valid [OF v(1)])
  have years: "truediv (get_or (account_age wd) (PyInt 0)) (PyInt 365)
      = Inr (num (get_or (account_age wd) (PyInt 0)) / 365)"
    using truediv_small [OF valid_number_small [OF v(8)], of "PyInt 365"] float_limit_large
    by simp
  have half: "truediv (get_or (portfolio_volatility wd) (PyInt 0)) (PyFloat 2)
      = Inr (num (get_or (portfolio_volatility wd) (PyInt 0)) / 2)"
    using truediv_small [OF valid_number_small [OF v(7)], of "PyFloat 2"] float_limit_large
    by simp
  have small: "\<not> float_limit \<le> x" if "x \<le> 3" for x
    using that float_limit_large by simp
  have least: "to_float (py_min (PyFloat x) (PyFloat 1)) = Inr (min x 1)" for x
    by (simp add: py_min_def min_def)
  show ?thesis
    unfolding create_composite_features_def Let_def on floats
    by (simp add: root years half least small
        to_float_small [OF valid_number_small [OF v(7)]]) blast
qed

subsection \<open>Outlier handling on Python numbers\<close>

lemma clip_number_step:
  assumes "stats_consistent fe" and "n \<in> set continuous_features"
    and "\<And>v. h n = Some v \<Longrightarrow> to_float v = Inr (num v)"
  shows "\<exists>h'. clip_number fe n h = Inr h' \<and> dom h' = dom h \<and>
           (\<forall>m. m \<noteq> n \<longrightarrow> h' m = h m) \<and>
           (\<forall>v. h' n = Some v \<longrightarrow> to_float v = Inr (num v))"
proof (cases "h n")
  case None
  then show ?thesis by (simp add: clip_number_def)
next
  case (Some v)
  note conv = assms(3) [OF Some]
  show ?thesis
  proof (cases "is_fitted fe")
    case False
    with Some conv show ?thesis by (simp add: clip_number_def)
  next
    case True
    with assms(1) obtain means stds where
      ms: "feature_stats fe ''mean'' = Some means" "feature_stats fe ''std'' = Some stds"
      and all: "list_all (\<lambda>name. means name = None \<or> stds name \<noteq> None) continuous_features"
      by (auto simp: stats_consistent_def split: option.splits)
    from all assms(2) have "means n = None \<or> stds n \<noteq> None"
      by (simp add: list_all_iff)
    with True ms Some conv show ?thesis
      by (auto simp: clip_number_def subscript_def split: option.splits)
  qed
qed

lemma clip_number_loop_returns:
  "stats_consistent fe \<Longrightarrow> set ns \<subseteq> set continuous_features \<Longrightarrow>
   (\<And>n v. n \<in> set ns \<Longrightarrow> h n = Some v \<Longrightarrow> to_float v = Inr (num v)) \<Longrightarrow>
   \<exists>h'. clip_number_loop fe ns h = Inr h' \<and> dom h' = dom h"
proof (induction ns arbitrary: h)
  case Nil
  then show ?case by simp
next
  case (Cons n ns)
  have conv: "\<And>v. h n = Some v \<Longrightarrow> to_float v = Inr (num v)"
    by (rule Cons.prems(3)) simp_all
  from Cons.prems(2) have "n \<in> set continuous_features" by simp
  from clip_number_step [OF Cons.prems(1) this conv]
  obtain h1 where h1: "clip_number fe n h = Inr h1" "dom h1 = dom h"
    "\<And>m. m \<noteq> n \<Longrightarrow> h1 m = h m" "\<And>v. h1 n = Some v \<Longrightarrow> to_float v = Inr (num v)"
    by blast
  have "to_float v = Inr (num v)" if "m \<in> set ns" "h1 m = Some v" for m v
  proof (cases "m = n")
    case True
    with that h1(4) show ?thesis by simp
  next
    case False
    with that h1(3) have "h m = Some v" by simp
    with that(1) show ?thesis by (intro Cons.prems(3) [of m v]) simp_all
  qed
  with Cons.IH [of h1] Cons.prems(1,2)
  obtain h' where "clip_number_loop fe ns h1 = Inr h'" "dom h' = dom h1" by auto
  with h1(1,2) show ?case by simp
qed

lemma dom_as_feature_map: "dom (as_feature_map features) = dom features"
  by (auto simp: as_feature_map_def)

lemma clip_number_unfitted: "\<not> is_fitted fe \<Longrightarrow> clip_number fe n h = Inr h"
  by (simp add: clip_number_def split: option.splits)

lemma clip_number_loop_unfitted: "\<not> is_fitted fe \<Longrightarrow> clip_number_loop fe ns h = Inr h"
  by (induction ns arbitrary: h) (simp_all add: clip_number_unfitted)

text \<open>
  The two readings of \<^verbatim>\<open>_handle_outliers\<close> agree: wherever the loop over Python numbers
  returns, the loop over the FeatureMap returns the same map read as floats.
\<close>

lemma as_feature_map_apply: "as_feature_map h n = map_option num (h n)"
  by (simp add: as_feature_map_def)

lemma as_feature_map_update: "as_feature_map (h(n \<mapsto> v)) = (as_feature_map h)(n \<mapsto> num v)"
  by (auto simp: as_feature_map_def)

lemma clip_number_float_view_case:
  "(case clip_number fe n h of
      Inl e \<Rightarrow> True
    | Inr h' \<Rightarrow> clip_feature fe n (as_feature_map h) = Inr (as_feature_map h'))"
proof (cases "h n")
  case None
  then show ?thesis
    by (simp add: clip_number_def clip_feature_def as_feature_map_apply)
next
  case (Some v)
  show ?thesis
  proof (cases "to_float v")
    case (Inl e)
    with Some show ?thesis
      by (simp add: clip_number_def clip_feature_def subscript_def as_feature_map_apply
          split: option.splits)
  next
    case (Inr x)
    then have "x = num v" by (rule to_float_value)
    with Some Inr show ?thesis
      by (simp add: clip_number_def clip_feature_def subscript_def as_feature_map_apply
          as_feature_map_update split: option.splits)
  qed
qed

lemma clip_number_float_view:
  assumes "clip_number fe n h = Inr h'"
  shows "clip_feature fe n (as_feature_map h) = Inr (as_feature_map h')"
  using clip_number_float_view_case [of fe n h] assms by simp

lemma clip_number_loop_float_view:
  "clip_number_loop fe ns h = Inr h' \<Longrightarrow>
   clip_loop fe ns (as_feature_map h) = Inr (as_feature_map h')"
proof (induction ns arbitrary: h)
  case Nil
  then show ?case by simp
next
  case (Cons n ns)
  from Cons.prems obtain h1 where a: "clip_number fe n h = Inr h1"
    and rest: "clip_number_loop fe ns h1 = Inr h'"
    by (auto split: sum.splits)
  from clip_number_float_view [OF a] Cons.IH [OF rest] show ?case by simp
qed

lemma handle_outliers_float_view:
  "handle_outliers_numbers fe features = Inr handled \<Longrightarrow>
   handle_outliers_features fe (as_feature_map features) = Inr (as_feature_map handled)"
  by (simp add: handle_outliers_numbers_def handle_outliers_features_def
      clip_number_loop_float_view)

text \<open>
  On a dict whose ints all convert to float the two readings raise or return alike.
\<close>

lemma clip_number_agrees:
  assumes "\<And>v. h n = Some v \<Longrightarrow> to_float v = Inr (num v)"
  shows "map_sum id as_feature_map (clip_number fe n h) = clip_feature fe n (as_feature_map h)"
proof (cases "h n")
  case None
  then show ?thesis
    by (simp add: clip_number_def clip_feature_def as_feature_map_apply)
next
  case (Some v)
  with assms have "to_float v = Inr (num v)" by simp
  with Some show ?thesis
    by (simp add: clip_number_def clip_feature_def subscript_def as_feature_map_apply
        as_feature_map_update split: option.splits)
qed

lemma clip_number_keeps_floats:
  assumes "clip_number fe n h = Inr h'" and "\<And>m v. h m = Some v \<Longrightarrow> to_float v = Inr (num v)"
    and "h' m = Some v"
  shows "to_float v = Inr (num v)"
proof (cases "h' m = h m")
  case True
  with assms(2,3) show ?thesis by simp
next
  case False
  with assms(1,3) have "\<exists>x. v = PyFloat x"
    by (auto simp: clip_number_def subscript_def and_then_eq_Inr
        split: option.splits if_splits sum.splits)
  then show ?thesis by auto
qed

lemma clip_number_loop_agrees:
  "(\<And>m v. h m = Some v \<Longrightarrow> to_float v = Inr (num v)) \<Longrightarrow>
   map_sum id as_feature_map (clip_number_loop fe ns h) = clip_loop fe ns (as_feature_map h)"
proof (induction ns arbitrary: h)
  case Nil
  then show ?case by simp
next
  case (Cons n ns)
  have step: "map_sum id as_feature_map (clip_number fe n h)
      = clip_feature fe n (as_feature_map h)"
    by (rule clip_number_agrees) (rule Cons.prems)
  show ?case
  proof (cases "clip_number fe n h")
    case (Inl e)
    with step have "clip_feature fe n (as_feature_map h) = Inl e" by simp
    with Inl show ?thesis by simp
  next
    case (Inr h1)
    with step have f: "clip_feature fe n (as_feature_map h) = Inr (as_feature_map h1)" by simp
    have "\<And>m v. h1 m = Some v \<Longrightarrow> to_float v = Inr (num v)"
      using clip_number_keeps_floats [OF Inr] Cons.prems by blast
    from Cons.IH [OF this] Inr f show ?thesis by simp
  qed
qed

lemma handle_outliers_agrees:
  "(\<And>m v. features m = Some v \<Longrightarrow> to_float v = Inr (num v)) \<Longrightarrow>
   map_sum id as_feature_map (handle_outliers_numbers fe features)
     = handle_outliers_features fe (as_feature_map features)"
  by (simp add: handle_outliers_numbers_def handle_outliers_features_def
      clip_number_loop_agrees)

text \<open>An int too large for a float makes \<^verbatim>\<open>value - mean\<close> raise on a fitted engineer.\<close>

lemma handle_outliers_raises_at_huge_int:
  "handle_outliers_numbers fitted_engineer (Map.empty(''tx_count'' \<mapsto> PyInt (2 ^ 1024)))
     = Inl OverflowError"
  by (simp add: handle_outliers_numbers_def continuous_features_def clip_number_def
      subscript_def fitted_engineer_def float_limit_def)

subsection \<open>The key set of the pipeline\<close>

lemma dom_onchain:
  assumes "valid_record wd" and "extract_onchain_features cfg wd = Inr features"
  shows "dom features = set (take 20 all_feature_names)"
  unfolding assms(2) [unfolded extract_onchain_valid [OF assms(1)] sum.inject, symmetric]
  by (simp add: all_feature_names_def insert_commute)

lemma dom_offchain:
  assumes "valid_record wd" and "extract_offchain_features cfg wd = Inr features"
  shows "dom features = set (take 9 (drop 20 all_feature_names))"
  unfolding assms(2) [unfolded extract_offchain_valid [OF assms(1)] sum.inject, symmetric]
  by (simp add: all_feature_names_def insert_commute)

lemma all_names_split:
  "set all_feature_names =
     set (take 20 all_feature_names) \<union> set (take 9 (drop 20 all_feature_names))
       \<union> {''activity_social_score'', ''trust_indicators'', ''risk_indicators''}"
proof -
  have "all_feature_names =
      take 20 all_feature_names @ take 9 (drop 20 all_feature_names)
        @ [''activity_social_score'', ''trust_indicators'', ''risk_indicators'']"
    by (simp add: all_feature_names_def)
  then have "set all_feature_names =
      set (take 20 all_feature_names @ take 9 (drop 20 all_feature_names)
        @ [''activity_social_score'', ''trust_indicators'', ''risk_indicators''])"
    by simp
  then show ?thesis by (simp only: set_append Un_assoc list.set Un_insert_right Un_empty_right)
qed

text \<open>On a valid record the continuous features are the valid numbers of the record.\<close>

lemma continuous_values_valid:
  assumes "valid_record wd"
    and "extract_onchain_features cfg wd = Inr onchain"
    and "extract_offchain_features cfg wd = Inr offchain"
    and "dom composite = {''activity_social_score'', ''trust_indicators'', ''risk_indicators''}"
    and "name \<in> set continuous_features"
    and "(onchain ++ offchain ++ composite) name = Some v"
  shows "valid_number v"
proof -
  note v = valid_record_fields [OF assms(1)]
  from assms(4,5) have "name \<notin> dom composite" by (auto simp: continuous_features_def)
  then have c: "composite name = None" by blast
  from assms(5) have names: "name \<in> {''tx_count'', ''contract_interactions'', ''avg_tx_value'',
      ''swap_frequency'', ''portfolio_volatility'', ''account_age'',
      ''farcaster_followers'', ''github_contributions''}"
    by (simp add: continuous_features_def)
  note on_eq = assms(2) [unfolded extract_onchain_valid [OF assms(1)] sum.inject, symmetric]
  note off_eq = assms(3) [unfolded extract_offchain_valid [OF assms(1)] sum.inject, symmetric]
  have look: "(onchain ++ offchain) ''tx_count'' = Some (get_or (total_transactions wd) (PyInt 0))"
    "(onchain ++ offchain) ''contract_interactions'' = Some (get_or (contract_interactions wd) (PyInt 0))"
    "(onchain ++ offchain) ''avg_tx_value'' = Some (get_or (average_transaction_value wd) (PyInt 0))"
    "(onchain ++ offchain) ''swap_frequency'' = Some (get_or (swap_frequency wd) (PyInt 0))"
    "(onchain ++ offchain) ''portfolio_volatility'' = Some (get_or (portfolio_volatility wd) (PyInt 0))"
    "(onchain ++ offchain) ''account_age'' = Some (get_or (account_age wd) (PyInt 0))"
    "(onchain ++ offchain) ''farcaster_followers'' = Some (get_or (farcaster_followers wd) (PyInt 0))"
    "(onchain ++ offchain) ''github_contributions'' = Some (get_or (github_contributions wd) (PyInt 0))"
    unfolding on_eq off_eq by (simp_all add: map_add_def)
  from assms(6) c have eq: "(onchain ++ offchain) name = Some v" by (simp add: map_add_def)
  from names show ?thesis
  proof (elim insertE emptyE)
  qed (use eq look v in simp_all)
qed

lemma with_defaults_onchain:
  "extract_onchain_features cfg (with_defaults wd) = extract_onchain_features cfg wd"
  by (simp add: extract_onchain_features_def with_defaults_def get_or_def)

lemma with_defaults_offchain:
  "extract_offchain_features cfg (with_defaults wd) = extract_offchain_features cfg wd"
  by (simp add: extract_offchain_features_def with_defaults_def get_or_def)

lemma with_defaults_engineer:
  "engineer_features fe (with_defaults wd) = engineer_features fe wd"
  by (simp add: engineer_features_def with_defaults_onchain with_defaults_offchain)

text \<open>
  C4. For every valid raw wallet record, with any of the recognised keys absent, on an
  engineer whose statistics satisfy their invariant, \<^verbatim>\<open>engineer_features\<close> returns a
  feature map whose key set is exactly the 32 feature names, the same for every such
  record, and the map is the one returned for the record with every absent key set to
  its default (0, \<^verbatim>\<open>False\<close>, the empty list).
\<close>

theorem engineer_features_key_set:
  assumes "valid_record wd" and "stats_consistent fe"
  shows "\<exists>features. engineer_features fe wd = Inr features \<and>
           dom features = set all_feature_names \<and>
           engineer_features fe (with_defaults wd) = Inr features"
proof -
  obtain onchain where on: "extract_onchain_features (config fe) wd = Inr onchain"
    by (simp add: extract_onchain_valid [OF assms(1)])
  obtain offchain where off: "extract_offchain_features (config fe) wd = Inr offchain"
    by (simp add: extract_offchain_valid [OF assms(1)])
  from create_composite_valid [OF assms(1) on off]
  obtain composite where comp: "create_composite_features onchain offchain = Inr composite"
    "dom composite = {''activity_social_score'', ''trust_indicators'', ''risk_indicators''}"
    by blast
  define all_features where "all_features = onchain ++ offchain ++ composite"
  have d: "dom all_features = set all_feature_names"
    unfolding all_features_def dom_map_add dom_onchain [OF assms(1) on]
      dom_offchain [OF assms(1) off] comp(2)
    using all_names_split by blast
  have eng: "engineer_features fe wd =
      (if handle_outliers (config fe)
       then and_then (handle_outliers_numbers fe all_features) (\<lambda>handled. Inr (as_feature_map handled))
       else Inr (as_feature_map all_features))"
    by (simp add: engineer_features_def on off comp all_features_def Let_def)
  obtain features where f: "engineer_features fe wd = Inr features"
    "dom features = dom all_features"
  proof (cases "handle_outliers (config fe)")
    case True
    have "to_float v = Inr (num v)"
      if "name \<in> set continuous_features" "all_features name = Some v" for name v
      using continuous_values_valid [OF assms(1) on off comp(2) that(1)] that(2)
      by (simp add: all_features_def to_float_small valid_number_small)
    with clip_number_loop_returns [OF assms(2), of continuous_features all_features]
    obtain handled where "handle_outliers_numbers fe all_features = Inr handled"
      "dom handled = dom all_features"
      by (auto simp: handle_outliers_numbers_def)
    with that eng True show ?thesis by (simp add: dom_as_feature_map)
  next
    case False
    with eng that show ?thesis by (simp add: dom_as_feature_map)
  qed
  with d show ?thesis by (simp add: with_defaults_engineer)
qed

lemma valid_empty: "valid_record empty_wallet_data"
  by (simp add: valid_record_def valid_signal_def empty_wallet_data_def get_or_def)

theorem engineer_features_key_set_witness:
  "valid_record empty_wallet_data \<and>
   stats_consistent (FeatureEngineer_init None) \<and>
   (\<exists>features. engineer_features (FeatureEngineer_init None) empty_wallet_data = Inr features \<and>
      dom features = set all_feature_names)"
proof -
  have h2: "stats_consistent (FeatureEngineer_init None)"
    by (simp add: stats_consistent_def FeatureEngineer_init_def)
  from engineer_features_key_set [OF valid_empty h2] valid_empty h2 show ?thesis by blast
qed

lemma engineer_features_unfitted:
  "\<not> is_fitted fe \<Longrightarrow>
   engineer_features fe wd =
     and_then (extract_onchain_features (config fe) wd) (\<lambda>onchain.
     and_then (extract_offchain_features (config fe) wd) (\<lambda>offchain.
     and_then (create_composite_features onchain offchain) (\<lambda>composite.
       Inr (as_feature_map (onchain ++ offchain ++ composite)))))"
  by (simp add: engineer_features_def handle_outliers_numbers_def clip_number_loop_unfitted
      Let_def cong del: if_weak_cong)

lemma init_unfitted: "\<not> is_fitted (FeatureEngineer_init cfg)"
  by (simp add: FeatureEngineer_init_def)

lemma engineer_features_init_returns:
  assumes "valid_record wd"
  shows "\<exists>features. engineer_features (FeatureEngineer_init cfg) wd = Inr features"
proof -
  let ?c = "config (FeatureEngineer_init cfg)"
  obtain onchain where on: "extract_onchain_features ?c wd = Inr onchain"
    by (simp add: extract_onchain_valid [OF assms])
  obtain offchain where off: "extract_offchain_features ?c wd = Inr offchain"
    by (simp add: extract_offchain_valid [OF assms])
  from create_composite_valid [OF assms on off]
  obtain composite where "create_composite_features onchain offchain = Inr composite"
    by blast
  with on off show ?thesis
    by (simp add: engineer_features_unfitted init_unfitted)
qed

lemma valid_risky: "valid_record risky_wallet"
  by (simp add: valid_record_def valid_signal_def valid_number_def
      risky_wallet_def empty_wallet_data_def get_or_def)

lemma valid_ens: "valid_record ens_wallet"
  by (simp add: valid_record_def valid_signal_def valid_number_def
      ens_wallet_def empty_wallet_data_def get_or_def)

lemmas evaluation =
  scaled_features_of_def engineer_features_unfitted init_unfitted transform_features_def
  extract_onchain_features_def extract_offchain_features_def create_composite_features_def
  token_features_def get_or_def dict_get_def
  FeatureEngineer_init_def default_config_def log_twin_def np_log1p_def np_sqrt_def
  np_scalar_def log1p_def py_max_def py_min_def as_feature_map_def float_limit_def
  map_add_def Let_def

lemma risky_scaled:
  "dict_get (scaled_features_of risk_explainer risky_wallet) ''has_ens'' 0 = 1"
  "dict_get (scaled_features_of risk_explainer risky_wallet) ''risk_indicators'' 0 = 1"
  by (simp_all add: risk_explainer_def test_explainer_def risky_wallet_def
      empty_wallet_data_def evaluation)

lemma ens_scaled:
  "dict_get (scaled_features_of failing_explainer ens_wallet) ''tx_count_log'' 0 = 0"
  "dict_get (scaled_features_of failing_explainer ens_wallet) ''has_ens'' 0 = 1"
  "dict_get (scaled_features_of failing_explainer ens_wallet) ''social_presence'' 0 = 1 / 3"
  by (simp_all add: failing_explainer_def test_explainer_def ens_wallet_def
      empty_wallet_data_def evaluation)

text \<open>Outside the valid range the pipeline raises where the source does.\<close>

lemma engineer_raises_at_huge_int:
  "engineer_features (FeatureEngineer_init None) huge_count_wallet = Inl TypeError"
  by (simp add: engineer_features_def FeatureEngineer_init_def get_or_def
      onchain_raises_at_huge_int)

lemma engineer_raises_in_sqrt:
  "engineer_features (FeatureEngineer_init (Some plain_config)) huge_count_wallet = Inl TypeError"
  by (simp add: plain_config_def huge_count_wallet_def empty_wallet_data_def
      engineer_features_unfitted init_unfitted
      extract_onchain_features_def extract_offchain_features_def create_composite_features_def
      token_features_def get_or_def dict_get_def
      FeatureEngineer_init_def default_config_def log_twin_def np_log1p_def np_sqrt_def
      np_scalar_def log1p_def py_max_def py_min_def float_limit_def Let_def)

subsection \<open>Scalers\<close>

text \<open>
  C7. \<^verbatim>\<open>fit_scalers\<close> on an empty batch raises the \<^verbatim>\<open>ValueError\<close> (the
  configuration error of the specification) and leaves the engineer as it was: on a
  new engineer no scaler exists afterwards and the fitted flag is still unset.
\<close>

theorem fit_scalers_empty_batch:
  "fit_scalers lib fe [] =
     (Inl (ValueError ''No feature data provided for fitting scalers''), fe, []) \<and>
   scalers (fst (snd (fit_scalers lib (FeatureEngineer_init cfg) []))) = Map.empty \<and>
   \<not> is_fitted (fst (snd (fit_scalers lib (FeatureEngineer_init cfg) [])))"
  by (simp add: fit_scalers_def FeatureEngineer_init_def)

text \<open>
  C8. On an engineer that is not fitted, \<^verbatim>\<open>transform_features\<close> returns the feature map
  it was given, unchanged, and emits one warning-level log record; it has no error
  outcome.
\<close>

theorem transform_before_fit:
  assumes "\<not> is_fitted fe"
  shows "transform_features fe features =
           (features, [(WARNING, ''Scalers not fitted. Returning raw features.'')])"
  using assms by (simp add: transform_features_def)

theorem transform_before_fit_witness:
  "\<not> is_fitted (FeatureEngineer_init None) \<and>
   fst (transform_features (FeatureEngineer_init None) ens_scaled_features) = ens_scaled_features \<and>
   map fst (snd (transform_features (FeatureEngineer_init None) ens_scaled_features)) = [WARNING]"
proof -
  have h: "\<not> is_fitted (FeatureEngineer_init None)" by (simp add: FeatureEngineer_init_def)
  from transform_before_fit [OF h, of ens_scaled_features] h show ?thesis by simp
qed

text \<open>
  C10. \<^verbatim>\<open>save_scalers\<close> on an engineer that is not fitted raises nothing, leaves the
  disk as it was and logs nothing; its outcome is the outcome of every save of a fitted
  engineer that succeeded, so the outcome does not tell the two apart.
\<close>

theorem save_scalers_unfitted:
  assumes "\<not> is_fitted fe"
  shows "save_scalers joblib_dump fe filepath d = (Inr (), d, []) \<and>
         (\<forall>fitted d'. is_fitted fitted \<and>
             fst (save_scalers joblib_dump fitted filepath d') = Inr ()
             \<longrightarrow> fst (save_scalers joblib_dump fitted filepath d') =
                 fst (save_scalers joblib_dump fe filepath d))"
  using assms by (simp add: save_scalers_def)

theorem save_scalers_unfitted_witness:
  "\<not> is_fitted (FeatureEngineer_init None) \<and> is_fitted fitted_engineer \<and>
   save_scalers write_dump (FeatureEngineer_init None) ''scalers.pkl'' Map.empty
     = (Inr (), Map.empty, []) \<and>
   fst (save_scalers write_dump fitted_engineer ''scalers.pkl'' Map.empty) = Inr () \<and>
   fst (save_scalers write_dump fitted_engineer ''scalers.pkl'' Map.empty) =
   fst (save_scalers write_dump (FeatureEngineer_init None) ''scalers.pkl'' Map.empty) \<and>
   fst (snd (save_scalers write_dump fitted_engineer ''scalers.pkl'' Map.empty)) ''scalers.pkl'' \<noteq> None"
proof -
  have h: "\<not> is_fitted (FeatureEngineer_init None)" by (simp add: FeatureEngineer_init_def)
  have f: "is_fitted fitted_engineer" by (simp add: fitted_engineer_def)
  have ok: "fst (save_scalers write_dump fitted_engineer ''scalers.pkl'' Map.empty) = Inr ()"
    by (simp add: save_scalers_def write_dump_def f)
  have w: "fst (snd (save_scalers write_dump fitted_engineer ''scalers.pkl'' Map.empty)) ''scalers.pkl'' \<noteq> None"
    by (simp add: save_scalers_def write_dump_def f)
  note inst = save_scalers_unfitted [OF h, of write_dump "''scalers.pkl''" Map.empty]
  from inst [THEN conjunct2, rule_format, of fitted_engineer Map.empty] f ok
  have "fst (save_scalers write_dump fitted_engineer ''scalers.pkl'' Map.empty) =
   fst (save_scalers write_dump (FeatureEngineer_init None) ''scalers.pkl'' Map.empty)" by simp
  with inst [THEN conjunct1] h f ok w show ?thesis by simp
qed

subsection \<open>Confidence\<close>

lemma quality_score_card:
  "quality_score scaled =
     card {name \<in> {''tx_count_log'', ''account_age_log'', ''contract_interaction_ratio'',
                    ''has_ens'', ''social_presence''}. dict_get scaled name 0 > 0}"
proof -
  have "distinct quality_features" by (simp add: quality_features_def)
  then have "quality_score scaled = card ({name. dict_get scaled name 0 > 0} \<inter> set quality_features)"
    unfolding quality_score_def by (rule distinct_length_filter)
  also have "{name. dict_get scaled name 0 > 0} \<inter> set quality_features =
      {name \<in> set quality_features. dict_get scaled name 0 > 0}" by blast
  finally show ?thesis by (simp add: quality_features_def)
qed

lemma quality_score_le: "quality_score scaled \<le> 5"
proof -
  have "quality_score scaled \<le> length quality_features"
    unfolding quality_score_def by (rule length_filter_le)
  then show ?thesis by (simp add: quality_features_def)
qed

lemma feature_availability_range:
  "0 \<le> feature_availability names scaled \<and> feature_availability names scaled \<le> 1"
proof -
  have "length (filter (\<lambda>name. dict_get scaled name 0 \<noteq> 0) names) \<le> length names"
    by (rule length_filter_le)
  then show ?thesis
    by (cases "names = []") (simp_all add: feature_availability_def divide_le_eq_1)
qed

text \<open>
  C6. With at least one declared feature name, \<^verbatim>\<open>_calculate_confidence\<close> returns, for
  every scaled feature map and contribution list, the sum of three components clamped
  above at 100: the fraction of declared names with a nonzero scaled value times 40;
  \<open>min (total importance / 20) 1\<close> times 30 when the total importance is positive;
  the fraction of the five quality features with a positive scaled value times 30.
  The result lies between 0 and 100.
\<close>

theorem confidence_formula_and_range:
  assumes "feature_names ex \<noteq> []"
  shows "\<exists>c. calculate_confidence ex scaled contributions = Inr c \<and>
     c = min (real (length (filter (\<lambda>name. dict_get scaled name 0 \<noteq> 0) (feature_names ex)))
                / real (length (feature_names ex)) * 40
              + (if sum_list (map importance contributions) > 0
                 then min (sum_list (map importance contributions) / 20) 1 * 30 else 0)
              + real (card {name \<in> {''tx_count_log'', ''account_age_log'',
                                     ''contract_interaction_ratio'', ''has_ens'',
                                     ''social_presence''}. dict_get scaled name 0 > 0}) / 5 * 30)
             100 \<and>
     0 \<le> c \<and> c \<le> 100"
proof -
  let ?a = "feature_availability (feature_names ex) scaled"
  let ?t = "sum_list (map importance contributions)"
  let ?b = "if ?t > 0 then min (?t / 20) 1 * 30 else 0"
  let ?q = "real (quality_score scaled) / 5 * 30"
  have run: "calculate_confidence ex scaled contributions = Inr (min (?a * 40 + ?b + ?q) 100)"
    using assms
    by (simp add: calculate_confidence_def Let_def total_importance_def quality_features_def)
  have a: "0 \<le> ?a * 40" using feature_availability_range [of "feature_names ex" scaled] by simp
  have b: "0 \<le> ?b" by simp
  have q: "0 \<le> ?q" by simp
  from a b q have lo: "0 \<le> min (?a * 40 + ?b + ?q) 100" by simp
  have hi: "min (?a * 40 + ?b + ?q) 100 \<le> 100" by simp
  from run lo hi show ?thesis
    unfolding quality_score_card feature_availability_def by blast
qed

lemma confidence_value:
  "calculate_confidence test_explainer ens_scaled_features
           (get_deterministic_contributions test_explainer ens_scaled_features 75) = Inr (146 / 3)"
  by (simp add: calculate_confidence_def test_explainer_def ens_scaled_features_def
      get_deterministic_contributions_def total_weighted_contribution_def raw_contribution_def
      dict_get_def get_feature_importance_weights_def feature_availability_def
      total_importance_def quality_score_def quality_features_def Let_def)

theorem confidence_formula_and_range_witness:
  "feature_names test_explainer \<noteq> [] \<and>
   calculate_confidence test_explainer ens_scaled_features
     (get_deterministic_contributions test_explainer ens_scaled_features 75) = Inr (146 / 3) \<and>
   (0::real) \<le> 146 / 3 \<and> (146 / 3 :: real) \<le> 100"
proof -
  have h: "feature_names test_explainer \<noteq> []" by (simp add: test_explainer_def)
  from confidence_formula_and_range [OF h, of ens_scaled_features
      "get_deterministic_contributions test_explainer ens_scaled_features 75"]
  obtain c where "calculate_confidence test_explainer ens_scaled_features
     (get_deterministic_contributions test_explainer ens_scaled_features 75) = Inr c"
    "0 \<le> c" "c \<le> 100" by blast
  with h show ?thesis by (simp add: confidence_value)
qed

subsection \<open>Contributions\<close>

lemma total_weighted_nonneg: "0 \<le> total_weighted_contribution scaled names"
  unfolding total_weighted_contribution_def by (rule sum_list_nonneg) auto

lemma deterministic_zero_base:
  assumes "total_weighted_contribution scaled (feature_names ex) = 0"
  shows "get_deterministic_contributions ex scaled predicted =
           map (raw_contribution scaled) (feature_names ex)"
  using assms by (simp add: get_deterministic_contributions_def)

lemma deterministic_sum:
  assumes "total_weighted_contribution scaled (feature_names ex) > 0"
  shows "sum_list (map contribution (get_deterministic_contributions ex scaled predicted)) =
           (predicted - 50) * sum_list (map (\<lambda>name. contribution (raw_contribution scaled name))
                                 (feature_names ex))
             / total_weighted_contribution scaled (feature_names ex)"
proof -
  let ?t = "total_weighted_contribution scaled (feature_names ex)"
  have "sum_list (map contribution (get_deterministic_contributions ex scaled predicted)) =
      sum_list (map (\<lambda>name. contribution (raw_contribution scaled name) * ((predicted - 50) / ?t))
                 (feature_names ex))"
    using assms by (simp add: get_deterministic_contributions_def Let_def comp_def)
  also have "\<dots> = sum_list (map (\<lambda>name. contribution (raw_contribution scaled name))
                 (feature_names ex)) * ((predicted - 50) / ?t)"
    by (rule sum_list_mult_const)
  finally show ?thesis by (simp add: mult.commute)
qed

lemma deterministic_sum_same_sign:
  assumes "total_weighted_contribution scaled (feature_names ex) > 0"
    and "list_all (\<lambda>name. 0 \<le> contribution (raw_contribution scaled name)) (feature_names ex)"
  shows "sum_list (map contribution (get_deterministic_contributions ex scaled predicted)) =
           predicted - 50"
proof -
  from assms(2) have "map (\<lambda>name. \<bar>contribution (raw_contribution scaled name)\<bar>) (feature_names ex)
      = map (\<lambda>name. contribution (raw_contribution scaled name)) (feature_names ex)"
    by (simp add: list_all_iff)
  then have "total_weighted_contribution scaled (feature_names ex) =
      sum_list (map (\<lambda>name. contribution (raw_contribution scaled name)) (feature_names ex))"
    unfolding total_weighted_contribution_def by (rule arg_cong)
  with deterministic_sum [OF assms(1), of predicted] assms(1) show ?thesis by simp
qed

lemma weight_values:
  "dict_get get_feature_importance_weights ''tx_count_log'' (1 / 100) = 0.15"
  "dict_get get_feature_importance_weights ''has_ens'' (1 / 100) = 0.05"
  "dict_get get_feature_importance_weights ''social_presence'' (1 / 100) = 0.05"
  "dict_get get_feature_importance_weights ''risk_indicators'' (1 / 100) = - 0.03"
  by (simp_all add: dict_get_def get_feature_importance_weights_def)

lemma shap_failure_uses_neutral_score:
  "shap_attempt ex feature_vector scaled = Inl e \<Longrightarrow>
   get_shap_contributions ex feature_vector scaled =
     (get_deterministic_contributions ex scaled 50, [(WARNING, ''SHAP explanation failed'')])"
  by (simp add: get_shap_contributions_def)

lemma explain_prediction_returns:
  assumes "feature_names ex \<noteq> []"
    and "engineer_features (feature_engineer ex) wd = Inr features"
  shows "\<exists>expl. explain_prediction ex wd = Inr expl \<and>
           predicted_score expl =
             model_predict ex (map (\<lambda>name. dict_get (scaled_features_of ex wd) name 0)
                                (feature_names ex)) \<and>
           feature_contributions expl =
             (if explainer ex \<noteq> None
              then fst (get_shap_contributions ex
                          (map (\<lambda>name. dict_get (scaled_features_of ex wd) name 0)
                             (feature_names ex))
                          (scaled_features_of ex wd))
              else get_deterministic_contributions ex (scaled_features_of ex wd)
                     (model_predict ex (map (\<lambda>name. dict_get (scaled_features_of ex wd) name 0)
                                          (feature_names ex))))"
  using assms
  by (simp add: explain_prediction_def scaled_features_of_def calculate_confidence_def Let_def)

text \<open>
  C1 on the code. The source comments the rescaling with "Normalize contributions so they
  sum to the deviation from base score", but divides by the sum of absolute raw
  contributions. With \<^verbatim>\<open>has_ens\<close> (weight 0.05) and \<^verbatim>\<open>risk_indicators\<close> (weight -0.03)
  both at 1 and a predicted score of 75, the base is 8, the contributions are 15.625 and
  -9.375, and they sum to 6.25, not to the deviation 25.
\<close>

theorem deterministic_sum_misses_deviation:
  "\<exists>expl. explain_prediction risk_explainer risky_wallet = Inr expl \<and>
     predicted_score expl = 75 \<and>
     total_weighted_contribution (scaled_features_of risk_explainer risky_wallet)
       (feature_names risk_explainer) = 8 \<and>
     map contribution (feature_contributions expl) = [125 / 8, - 75 / 8] \<and>
     sum_list (map contribution (feature_contributions expl)) = 25 / 4 \<and>
     predicted_score expl - 50 = 25"
proof -
  have names: "feature_names risk_explainer = [''has_ens'', ''risk_indicators'']"
    "explainer risk_explainer = None" "model_predict risk_explainer = (\<lambda>feature_vector. 75)"
    "feature_engineer risk_explainer = FeatureEngineer_init None"
    by (simp_all add: risk_explainer_def test_explainer_def)
  obtain features where "engineer_features (feature_engineer risk_explainer) risky_wallet = Inr features"
    using engineer_features_init_returns [OF valid_risky, of None]
    by (auto simp: names)
  from explain_prediction_returns [OF _ this]
  obtain expl where e: "explain_prediction risk_explainer risky_wallet = Inr expl"
    "predicted_score expl = 75"
    "feature_contributions expl =
       get_deterministic_contributions risk_explainer
         (scaled_features_of risk_explainer risky_wallet) 75"
    by (auto simp: names)
  have t: "total_weighted_contribution (scaled_features_of risk_explainer risky_wallet)
       (feature_names risk_explainer) = 8"
    by (simp add: names total_weighted_contribution_def raw_contribution_def risky_scaled
        weight_values Let_def)
  have c: "map contribution (feature_contributions expl) = [125 / 8, - 75 / 8]"
    unfolding e(3) get_deterministic_contributions_def t
    by (simp add: names raw_contribution_def risky_scaled
        weight_values Let_def)
  from e t c show ?thesis by simp
qed

text \<open>
  C3 on the code. When the SHAP explainer raises, \<^verbatim>\<open>explain_prediction\<close> returns, but
  the fallback is called with the constant 50.0 in place of the predicted score: for a
  predicted score of 75 every contribution is 0, where the deterministic path on the
  same scaled features and the score 75 gives 0, 18.75 and 6.25.
\<close>

theorem shap_fallback_ignores_predicted_score:
  "\<exists>expl. explain_prediction failing_explainer ens_wallet = Inr expl \<and>
     predicted_score expl = 75 \<and>
     map contribution (feature_contributions expl) = [0, 0, 0] \<and>
     map contribution
       (get_deterministic_contributions failing_explainer
          (scaled_features_of failing_explainer ens_wallet) (predicted_score expl))
       = [0, 75 / 4, 25 / 4]"
proof -
  have names: "feature_names failing_explainer = [''tx_count_log'', ''has_ens'', ''social_presence'']"
    "explainer failing_explainer = Some (\<lambda>feature_vector. Inl ExplainerError)"
    "model_predict failing_explainer = (\<lambda>feature_vector. 75)"
    "feature_engineer failing_explainer = FeatureEngineer_init None"
    by (simp_all add: failing_explainer_def test_explainer_def)
  have fails: "shap_attempt failing_explainer fv scaled = Inl ExplainerError" for fv scaled
    by (simp add: shap_attempt_def names)
  obtain features where "engineer_features (feature_engineer failing_explainer) ens_wallet = Inr features"
    using engineer_features_init_returns [OF valid_ens, of None]
    by (auto simp: names)
  from explain_prediction_returns [OF _ this]
  obtain expl where e: "explain_prediction failing_explainer ens_wallet = Inr expl"
    "predicted_score expl = 75"
    "feature_contributions expl =
       get_deterministic_contributions failing_explainer
         (scaled_features_of failing_explainer ens_wallet) 50"
    by (auto simp: names shap_failure_uses_neutral_score [OF fails])
  have t: "total_weighted_contribution (scaled_features_of failing_explainer ens_wallet)
       (feature_names failing_explainer) = 20 / 3"
    by (simp add: names total_weighted_contribution_def raw_contribution_def ens_scaled
        weight_values Let_def)
  have c: "map contribution (feature_contributions expl) = [0, 0, 0]"
    unfolding e(3) get_deterministic_contributions_def t
    by (simp add: names raw_contribution_def ens_scaled
        weight_values Let_def)
  have d: "map contribution
       (get_deterministic_contributions failing_explainer
          (scaled_features_of failing_explainer ens_wallet) 75) = [0, 75 / 4, 25 / 4]"
    unfolding get_deterministic_contributions_def t
    by (simp add: names raw_contribution_def ens_scaled
        weight_values Let_def)
  from e c d show ?thesis by simp
qed

end
